theory Spec2Isabelle
  imports Main
begin

section \<open>Request payloads\<close>

text \<open>
  Every handler parses the request body and destructures the fields it needs
  (\<^verbatim>\<open>const { appPublicKey, timestamp, signature, ... } = payload\<close>). The payload is kept as
  a record of the fields the handlers destructure, typed as the handlers' header comments
  document them: text fields are strings, \<^verbatim>\<open>timestamp\<close> is a number of milliseconds.
  \<open>None\<close> is a field that is absent from the body or \<^verbatim>\<open>null\<close> (both are falsy and both
  take the same branches); \<open>Some v\<close> is a field that is present with value \<open>v\<close>.
\<close>

record payload =
  bsvAddress :: "string option"
  appPublicKey :: "string option"
  rootPrincipal :: "string option"
  username :: "string option"
  displayName :: "string option"
  avatar :: "string option"
  role :: "string option"
  timestamp :: "int option"
  signature :: "string option"

text \<open>
  JavaScript truthiness, which is what \<^verbatim>\<open>!x\<close>, \<^verbatim>\<open>x && ...\<close> and \<^verbatim>\<open>x || d\<close> test: the empty
  string and the number 0 are falsy, as are \<^verbatim>\<open>undefined\<close> and \<^verbatim>\<open>null\<close>.
\<close>

definition truthy_str :: "string option \<Rightarrow> bool" where
  "truthy_str v = (case v of None \<Rightarrow> False | Some s \<Rightarrow> s \<noteq> [])"

definition truthy_num :: "int option \<Rightarrow> bool" where
  "truthy_num v = (case v of None \<Rightarrow> False | Some n \<Rightarrow> n \<noteq> 0)"

text \<open>\<^verbatim>\<open>x || null\<close> and \<^verbatim>\<open>x || 'literal'\<close>.\<close>

definition or_null :: "string option \<Rightarrow> string option" where
  "or_null v = (if truthy_str v then v else None)"

definition or_else :: "string option \<Rightarrow> string \<Rightarrow> string" where
  "or_else v d = (case v of None \<Rightarrow> d | Some s \<Rightarrow> if s = [] then d else s)"

text \<open>
  \<^verbatim>\<open>const timeDiff = Math.abs(now - timestamp); if (timeDiff > 300000) ...\<close>.
  The test is reached only behind the required-field check, where the timestamp is a
  non-zero number.
\<close>

definition expired :: "int \<Rightarrow> int option \<Rightarrow> bool" where
  "expired now ts = (case ts of None \<Rightarrow> False | Some t \<Rightarrow> \<bar>now - t\<bar> > 300000)"

section \<open>The User Directory\<close>

text \<open>
  A user document. The two generations of handlers write different attributes
  (\<^verbatim>\<open>bsvAddress\<close>, \<^verbatim>\<open>role\<close>, \<^verbatim>\<open>isActive\<close>, \<^verbatim>\<open>lastLogin\<close> in register.js;
  \<^verbatim>\<open>roles\<close>, \<^verbatim>\<open>status\<close> in the appPublicKey-keyed handlers), so every attribute is
  optional and \<open>None\<close> is an attribute that is \<^verbatim>\<open>null\<close> or was never sent. The
  attributes carry the source's names behind the prefix \<open>u_\<close>; \<open>u_id\<close> is \<^verbatim>\<open>$id\<close>.

  \<^verbatim>\<open>roles\<close> holds the JSON text of an array of role names. It is kept parsed:
  \<open>Some rs\<close> is text that parses to the array \<open>rs\<close>, \<open>None\<close> is an attribute that is
  null, empty or not parsable, for which the handlers fall back to the empty array
  (\<^verbatim>\<open>user.roles ? JSON.parse(user.roles) : []\<close> inside \<^verbatim>\<open>try/catch\<close>).
  Instants (\<^verbatim>\<open>new Date().toISOString()\<close>) are kept as the clock reading in milliseconds.
\<close>

datatype metadata = MetaEmpty | MetaRegistered int "string option"

record user =
  u_id :: nat
  u_bsvAddress :: "string option"
  u_appPublicKey :: "string option"
  u_metanetPrincipal :: "string option"
  u_username :: "string option"
  u_displayName :: "string option"
  u_avatar :: "string option"
  u_role :: "string option"
  u_isActive :: "bool option"
  u_lastLogin :: "int option"
  u_roles :: "string list option"
  u_status :: "string option"
  u_metadata :: "metadata option"

record role_doc =
  userPrincipal :: "string option"
  roleName :: string
  permissions :: "string list"
  grantedBy :: string
  grantedAt :: int

datatype collection = USERS | ROLES

datatype access = ListDocuments collection | CreateDocument collection | UpdateDocument collection

datatype db_error = DuplicateKey | DocumentNotFound

text \<open>
  The document store: the two collections, and the calls made on it so far, in order.
\<close>

record directory =
  users :: "user list"
  role_docs :: "role_doc list"
  accesses :: "access list"

definition called :: "access \<Rightarrow> directory \<Rightarrow> directory" where
  "called a s = s\<lparr>accesses := accesses s @ [a]\<rparr>"

text \<open>
  \<^verbatim>\<open>databases.listDocuments(DATABASE_ID, USERS_COLLECTION_ID, [queries])\<close>: the documents that
  satisfy the queries, in the collection's order. No handler passes a limit or a cursor
  and each reads the one answer it gets, and the store answers a list call that names no
  limit with at most 25 documents. The handlers mean the answer to be the whole result
  set (\<^verbatim>\<open>[] // Get all users to check for existing admins\<close>); it is that only while no
  more than 25 documents match.
\<close>

definition page_size :: nat where
  "page_size = 25"

definition list_users :: "(user \<Rightarrow> bool) \<Rightarrow> directory \<Rightarrow> user list \<times> directory" where
  "list_users q s = (take page_size (filter q (users s)), called (ListDocuments USERS) s)"

text \<open>\<^verbatim>\<open>ID.unique()\<close>: an identifier that no document of the collection carries.\<close>

definition unique_id :: "user list \<Rightarrow> nat" where
  "unique_id us = Suc (fold max (map u_id us) 0)"

text \<open>
  \<^verbatim>\<open>databases.createDocument(..., USERS_COLLECTION_ID, ID.unique(), doc)\<close>. The collection
  is set up with \<^verbatim>\<open>createIndex(..., 'idx_app_public_key', 'unique', ['appPublicKey'])\<close> and
  with \<^verbatim>\<open>createStringAttribute(..., 'status', 50, false, 'active')\<close>: a document whose
  \<^verbatim>\<open>appPublicKey\<close> is already stored is refused (the call throws), and a document sent
  without \<^verbatim>\<open>status\<close> is stored with the default. The index on \<^verbatim>\<open>username\<close> is of type
  \<^verbatim>\<open>'key'\<close>, so it refuses nothing.
\<close>

definition create_user :: "user \<Rightarrow> directory \<Rightarrow> (db_error + user) \<times> directory" where
  "create_user doc s =
     (let s' = called (CreateDocument USERS) s;
          d = doc\<lparr>u_id := unique_id (users s),
                  u_status := (case u_status doc of None \<Rightarrow> Some ''active'' | Some v \<Rightarrow> Some v)\<rparr>
      in if list_ex (\<lambda>u. u_appPublicKey u = u_appPublicKey doc) (users s)
         then (Inl DuplicateKey, s')
         else (Inr d, s'\<lparr>users := users s @ [d]\<rparr>))"

text \<open>
  \<^verbatim>\<open>databases.updateDocument(..., USERS_COLLECTION_ID, id, fields)\<close>: the fields are given as
  the change they make to a document; the call throws when no document has the id.
\<close>

definition update_user :: "nat \<Rightarrow> (user \<Rightarrow> user) \<Rightarrow> directory \<Rightarrow> (db_error + user) \<times> directory" where
  "update_user i f s =
     (let s' = called (UpdateDocument USERS) s
      in case find (\<lambda>u. u_id u = i) (users s) of
           None \<Rightarrow> (Inl DocumentNotFound, s')
         | Some u \<Rightarrow> (Inr (f u), s'\<lparr>users := map (\<lambda>v. if u_id v = i then f v else v) (users s)\<rparr>))"

definition create_role_doc :: "role_doc \<Rightarrow> directory \<Rightarrow> directory" where
  "create_role_doc g s = (called (CreateDocument ROLES) s)\<lparr>role_docs := role_docs s @ [g]\<rparr>"

section \<open>Responses\<close>

text \<open>
  \<^verbatim>\<open>res.json(body, status)\<close>: the HTTP status and the fields of the body that the handlers
  set: \<^verbatim>\<open>success\<close>, \<^verbatim>\<open>code\<close>, \<^verbatim>\<open>isNewUser\<close> and the document the \<^verbatim>\<open>user\<close> object is
  projected from.
\<close>

record response =
  status :: nat
  success :: bool
  code :: "string option"
  isNewUser :: "bool option"
  r_user :: "user option"

definition rejection :: "nat \<Rightarrow> string \<Rightarrow> response" where
  "rejection st c = \<lparr>status = st, success = False, code = Some c, isNewUser = None, r_user = None\<rparr>"

definition accepted :: "nat \<Rightarrow> bool option \<Rightarrow> user \<Rightarrow> response" where
  "accepted st n u = \<lparr>status = st, success = True, code = None, isNewUser = n, r_user = Some u\<rparr>"

section \<open>register-metanet-user (register.js)\<close>

text \<open>
  The handler takes the value of \<^verbatim>\<open>process.env.VITE_DEFAULT_ROLE\<close> and the reading of
  \<^verbatim>\<open>Date.now()\<close>. Between the freshness check and the first lookup the source builds
  \<^verbatim>\<open>dataToVerify\<close> and never uses it: the verification itself is a comment
  (\<^verbatim>\<open>// TODO: Implement signature verification with appPublicKey\<close>,
  \<^verbatim>\<open>// For now, we trust the signature parameter\<close>). A call that throws is answered by the
  \<^verbatim>\<open>catch\<close> block with status 500.
\<close>

definition new_user_doc :: "string option \<Rightarrow> int \<Rightarrow> payload \<Rightarrow> user" where
  "new_user_doc default_role now p =
     \<lparr>u_id = 0,
      u_bsvAddress = bsvAddress p,
      u_appPublicKey = appPublicKey p,
      u_metanetPrincipal = Some (or_else (rootPrincipal p) []),
      u_username = Some (or_else (username p) []),
      u_displayName = Some (or_else (displayName p) []),
      u_avatar = Some (or_else (avatar p) []),
      u_role = Some (or_else default_role ''user''),
      u_isActive = Some True,
      u_lastLogin = Some now,
      u_roles = None,
      u_status = None,
      u_metadata = Some (MetaRegistered now (appPublicKey p))\<rparr>"

definition default_role_doc :: "string option \<Rightarrow> int \<Rightarrow> payload \<Rightarrow> role_doc" where
  "default_role_doc default_role now p =
     \<lparr>userPrincipal = bsvAddress p,
      roleName = or_else default_role ''user'',
      permissions = [''read:own'', ''write:own'', ''delete:own''],
      grantedBy = ''system'',
      grantedAt = now\<rparr>"

definition register :: "string option \<Rightarrow> int \<Rightarrow> payload \<Rightarrow> directory \<Rightarrow> response \<times> directory" where
  "register default_role now p s =
     (if \<not> truthy_str (bsvAddress p) \<or> \<not> truthy_str (appPublicKey p)
          \<or> \<not> truthy_str (signature p) \<or> \<not> truthy_num (timestamp p)
      then (rejection 400 ''MISSING_FIELDS'', s)
      else if expired now (timestamp p)
      then (rejection 400 ''EXPIRED_REQUEST'', s)
      else
        let (existingBsvUsers, s1) = list_users (\<lambda>u. u_bsvAddress u = bsvAddress p) s
        in if length existingBsvUsers > 0
           then (rejection 409 ''ADDRESS_EXISTS'', s1)
           else
             let (existingKeyUsers, s2) = list_users (\<lambda>u. u_appPublicKey u = appPublicKey p) s1
             in if length existingKeyUsers > 0
                then (rejection 409 ''KEY_EXISTS'', s2)
                else
                  (case create_user (new_user_doc default_role now p) s2 of
                     (Inl e, s3) \<Rightarrow> (rejection 500 ''REGISTRATION_ERROR'', s3)
                   | (Inr newUser, s3) \<Rightarrow>
                       (accepted 201 (Some True) newUser,
                        create_role_doc (default_role_doc default_role now p) s3)))"

section \<open>authenticate (register.js, second handler)\<close>

definition authenticate :: "int \<Rightarrow> payload \<Rightarrow> directory \<Rightarrow> response \<times> directory" where
  "authenticate now p s =
     (if \<not> truthy_str (bsvAddress p) \<or> \<not> truthy_str (appPublicKey p)
          \<or> \<not> truthy_num (timestamp p) \<or> \<not> truthy_str (signature p)
      then (rejection 400 ''MISSING_FIELDS'', s)
      else if expired now (timestamp p)
      then (rejection 400 ''EXPIRED_REQUEST'', s)
      else
        let (documents, s1) = list_users (\<lambda>u. u_bsvAddress u = bsvAddress p) s
        in (case documents of
              [] \<Rightarrow> (rejection 404 ''USER_NOT_FOUND'', s1)
            | usr # _ \<Rightarrow>
                if u_appPublicKey usr \<noteq> appPublicKey p
                then (rejection 401 ''INVALID_KEY'', s1)
                else
                  (case update_user (u_id usr) (\<lambda>u. u\<lparr>u_lastLogin := Some now\<rparr>) s1 of
                     (Inl e, s2) \<Rightarrow> (rejection 500 ''AUTH_ERROR'', s2)
                   | (Inr usr', s2) \<Rightarrow> (accepted 200 (Some False) usr', s2))))"

section \<open>grant-user-role, self-service\<close>

definition validRoles :: "string list" where
  "validRoles = [''admin'', ''moderator'', ''user'']"

text \<open>\<^verbatim>\<open>xs.includes(v)\<close> and \<^verbatim>\<open>xs.push(v)\<close> for a payload field \<open>v\<close>.\<close>

definition array_includes :: "string list \<Rightarrow> string option \<Rightarrow> bool" where
  "array_includes xs v = (case v of None \<Rightarrow> False | Some x \<Rightarrow> x \<in> set xs)"

definition push :: "string list \<Rightarrow> string option \<Rightarrow> string list" where
  "push xs v = (case v of None \<Rightarrow> xs | Some x \<Rightarrow> xs @ [x])"

text \<open>\<^verbatim>\<open>u.roles ? JSON.parse(u.roles) : []\<close>, with \<^verbatim>\<open>[]\<close> again when parsing throws.\<close>

definition parse_roles :: "string list option \<Rightarrow> string list" where
  "parse_roles r = (case r of None \<Rightarrow> [] | Some rs \<Rightarrow> rs)"

definition holds_admin :: "user \<Rightarrow> bool" where
  "holds_admin u = array_includes (parse_roles (u_roles u)) (Some ''admin'')"

definition grant_user_role :: "int \<Rightarrow> payload \<Rightarrow> directory \<Rightarrow> response \<times> directory" where
  "grant_user_role now p s =
     (if \<not> truthy_str (appPublicKey p) \<or> \<not> truthy_str (role p)
          \<or> \<not> truthy_num (timestamp p) \<or> \<not> truthy_str (signature p)
      then (rejection 400 ''MISSING_FIELDS'', s)
      else if \<not> array_includes validRoles (role p)
      then (rejection 400 ''INVALID_ROLE'', s)
      else if expired now (timestamp p)
      then (rejection 400 ''EXPIRED_REQUEST'', s)
      else
        let (documents, s1) = list_users (\<lambda>u. u_appPublicKey u = appPublicKey p) s
        in (case documents of
              [] \<Rightarrow> (rejection 404 ''USER_NOT_FOUND'', s1)
            | usr # _ \<Rightarrow>
                let rolesArray = parse_roles (u_roles usr);
                    isCurrentUserAdmin = array_includes rolesArray (Some ''admin'');
                    (allUsers, s2) = list_users (\<lambda>u. True) s1;
                    hasExistingAdmin = list_ex holds_admin allUsers
                in if hasExistingAdmin \<and> \<not> isCurrentUserAdmin
                   then (rejection 403 ''UNAUTHORIZED'', s2)
                   else
                     let rolesArray' = (if \<not> array_includes rolesArray (role p)
                                        then push rolesArray (role p) else rolesArray)
                     in (case update_user (u_id usr)
                                (\<lambda>u. u\<lparr>u_roles := Some rolesArray', u_status := Some ''active''\<rparr>) s2 of
                           (Inl e, s3) \<Rightarrow> (rejection 500 ''GRANT_ERROR'', s3)
                         | (Inr updatedUser, s3) \<Rightarrow> (accepted 200 None updatedUser, s3))))"

section \<open>auth-or-register\<close>

text \<open>
  The \<^verbatim>\<open>updates\<close> object of the Found path: a key is set when the payload field is truthy
  and differs from the stored attribute; \<open>None\<close> is a key that was not set.
\<close>

record profile_updates =
  set_username :: "string option"
  set_displayName :: "string option"
  set_avatar :: "string option"

definition differs :: "string option \<Rightarrow> string option \<Rightarrow> string option" where
  "differs v stored = (if truthy_str v \<and> v \<noteq> stored then v else None)"

definition collect_updates :: "payload \<Rightarrow> user \<Rightarrow> profile_updates" where
  "collect_updates p usr =
     \<lparr>set_username = differs (username p) (u_username usr),
      set_displayName = differs (displayName p) (u_displayName usr),
      set_avatar = differs (avatar p) (u_avatar usr)\<rparr>"

text \<open>\<^verbatim>\<open>Object.keys(updates).length\<close>.\<close>

definition keys_length :: "profile_updates \<Rightarrow> nat" where
  "keys_length upd =
     length (filter (\<lambda>v. v \<noteq> None) [set_username upd, set_displayName upd, set_avatar upd])"

definition apply_updates :: "profile_updates \<Rightarrow> user \<Rightarrow> user" where
  "apply_updates upd u =
     u\<lparr>u_username := (case set_username upd of None \<Rightarrow> u_username u | Some v \<Rightarrow> Some v),
       u_displayName := (case set_displayName upd of None \<Rightarrow> u_displayName u | Some v \<Rightarrow> Some v),
       u_avatar := (case set_avatar upd of None \<Rightarrow> u_avatar u | Some v \<Rightarrow> Some v)\<rparr>"

text \<open>
  \<^verbatim>\<open>const newUserDoc = { appPublicKey, username: username || null, displayName: displayName || null,
  avatar: avatar || null, metadata: '{}' }\<close>
  (\<^verbatim>\<open>// Create new user with minimal fields (avoid sending attributes that may not exist)\<close>).
\<close>

definition newUserDoc :: "payload \<Rightarrow> user" where
  "newUserDoc p =
     \<lparr>u_id = 0,
      u_bsvAddress = None,
      u_appPublicKey = appPublicKey p,
      u_metanetPrincipal = None,
      u_username = or_null (username p),
      u_displayName = or_null (displayName p),
      u_avatar = or_null (avatar p),
      u_role = None,
      u_isActive = None,
      u_lastLogin = None,
      u_roles = None,
      u_status = None,
      u_metadata = Some MetaEmpty\<rparr>"

text \<open>
  The handler awaits each call on the directory, and other requests run in between.
  \<open>others k\<close> is what they do to the users collection after this request's \<open>k\<close>-th call
  has returned and before its next call; a request that runs alone has \<open>alone\<close> there.
\<close>

definition meanwhile :: "(user list \<Rightarrow> user list) \<Rightarrow> directory \<Rightarrow> directory" where
  "meanwhile f s = s\<lparr>users := f (users s)\<rparr>"

definition alone :: "nat \<Rightarrow> user list \<Rightarrow> user list" where
  "alone k us = us"

definition auth_or_register ::
  "(nat \<Rightarrow> user list \<Rightarrow> user list) \<Rightarrow> int \<Rightarrow> payload \<Rightarrow> directory \<Rightarrow> response \<times> directory" where
  "auth_or_register others now p s =
     (if \<not> truthy_str (appPublicKey p) \<or> \<not> truthy_num (timestamp p) \<or> \<not> truthy_str (signature p)
      then (rejection 400 ''MISSING_FIELDS'', s)
      else if expired now (timestamp p)
      then (rejection 400 ''EXPIRED_REQUEST'', s)
      else
        let (documents, s1) = list_users (\<lambda>u. u_appPublicKey u = appPublicKey p) s
        in (case documents of
              usr # _ \<Rightarrow>
                let updates = collect_updates p usr
                in if keys_length updates > 0
                   then (case update_user (u_id usr) (apply_updates updates) (meanwhile (others 1) s1) of
                           (Inl e, s2) \<Rightarrow> (rejection 500 ''AUTH_ERROR'', s2)
                         | (Inr usr', s2) \<Rightarrow> (accepted 200 (Some False) usr', s2))
                   else (accepted 200 (Some False) usr, s1)
            | [] \<Rightarrow>
                let (taken, n, s2) =
                      (if truthy_str (username p)
                       then let (existingUsername, s') =
                                  list_users (\<lambda>u. u_username u = username p) (meanwhile (others 1) s1)
                            in (length existingUsername > 0, 2, s')
                       else (False, 1, s1))
                in if taken
                   then (rejection 409 ''USERNAME_TAKEN'', s2)
                   else
                     (case create_user (newUserDoc p) (meanwhile (others n) s2) of
                        (Inl e, s3) \<Rightarrow> (rejection 500 ''AUTH_ERROR'', s3)
                      | (Inr usr, s3) \<Rightarrow> (accepted 200 (Some True) usr, s3))))"

section \<open>Auxiliary notions for the statements\<close>

text \<open>
  A payload that passes the two checks every handler makes before it touches the
  directory: the required fields of auth-or-register are truthy and the timestamp lies
  in the window.
\<close>

definition verified :: "int \<Rightarrow> payload \<Rightarrow> bool" where
  "verified now p \<longleftrightarrow>
     truthy_str (appPublicKey p) \<and> truthy_num (timestamp p) \<and> truthy_str (signature p)
     \<and> \<not> expired now (timestamp p)"

text \<open>The document that auth-or-register stores for a payload in a collection \<open>us\<close>.\<close>

definition stored :: "payload \<Rightarrow> user list \<Rightarrow> user" where
  "stored p us = (newUserDoc p)\<lparr>u_id := unique_id us, u_status := Some ''active''\<rparr>"

text \<open>Concrete requests and directories on which the statements are exercised.\<close>

definition request_pk1 :: payload where
  "request_pk1 =
     \<lparr>bsvAddress = Some ''addr1'', appPublicKey = Some ''pk1'', rootPrincipal = None,
      username = Some ''bob'', displayName = None, avatar = None, role = Some ''admin'',
      timestamp = Some 1700000000000, signature = Some ''00''\<rparr>"

definition empty_directory :: directory where
  "empty_directory = \<lparr>users = [], role_docs = [], accesses = []\<rparr>"

definition request_pk2 :: payload where
  "request_pk2 = request_pk1\<lparr>bsvAddress := Some ''addr2'', appPublicKey := Some ''pk2''\<rparr>"

text \<open>A directory in which \<^verbatim>\<open>pk1\<close> (respectively \<^verbatim>\<open>pk2\<close>) is registered under the name bob.\<close>

definition bob_pk1_directory :: directory where
  "bob_pk1_directory = \<lparr>users = [stored request_pk1 []], role_docs = [], accesses = []\<rparr>"

definition bob_pk2_directory :: directory where
  "bob_pk2_directory = \<lparr>users = [stored request_pk2 []], role_docs = [], accesses = []\<rparr>"

text \<open>
  The users collection as auth-or-register finds it when it calls \<^verbatim>\<open>createDocument\<close>:
  behind one lookup when no username was supplied, behind two otherwise.
\<close>

definition users_at_create :: "(nat \<Rightarrow> user list \<Rightarrow> user list) \<Rightarrow> payload \<Rightarrow> user list \<Rightarrow> user list" where
  "users_at_create others p us =
     (if truthy_str (username p) then others 2 (others 1 us) else others 1 us)"

text \<open>
  A concurrent request that registers \<^verbatim>\<open>pk1\<close> while this one is between its username
  lookup and its create.
\<close>

definition racing :: "nat \<Rightarrow> user list \<Rightarrow> user list" where
  "racing k us = (if k = 2 then us @ [stored request_pk1 us] else us)"

text \<open>The directory that the register handler leaves after registering \<^verbatim>\<open>pk1\<close>.\<close>

definition register_js_directory :: directory where
  "register_js_directory = snd (register None 1700000000000 request_pk1 empty_directory)"

text \<open>
  The users collection after the self-service handler has granted role \<open>r\<close> to
  \<open>caller\<close>: the update names the caller's id and writes the caller's roles, with \<open>r\<close>
  appended when it was not among them, and \<^verbatim>\<open>status: 'active'\<close>.
\<close>

definition granted :: "string \<Rightarrow> user \<Rightarrow> user list \<Rightarrow> user list" where
  "granted r caller us =
     map (\<lambda>v. if u_id v = u_id caller
              then v\<lparr>u_roles := Some (if r \<in> set (parse_roles (u_roles caller))
                                        then parse_roles (u_roles caller)
                                        else parse_roles (u_roles caller) @ [r]),
                     u_status := Some ''active''\<rparr>
              else v) us"

text \<open>
  A directory of 27 users: 25 members without a role, then \<^verbatim>\<open>pk1\<close>, who holds the admin
  role, then \<^verbatim>\<open>pk2\<close>, who holds no role.
\<close>

definition member :: "nat \<Rightarrow> user" where
  "member i =
     (newUserDoc request_pk1)
       \<lparr>u_id := i, u_appPublicKey := Some (''member'' @ replicate i (CHR ''x'')),
        u_username := None, u_status := Some ''active''\<rparr>"

definition crowded_directory :: directory where
  "crowded_directory =
     \<lparr>users = map member [1, 2, 3, 4, 5, 6, 7, 8, 9, 10, 11, 12, 13, 14, 15, 16, 17, 18, 19, 20,
                            21, 22, 23, 24, 25]
               @ [(stored request_pk1 [])\<lparr>u_id := 26, u_roles := Some [''admin'']\<rparr>,
                  (stored request_pk2 [])\<lparr>u_id := 27\<rparr>],
      role_docs = [], accesses = []\<rparr>"

section \<open>Basic facts\<close>

lemma meanwhile_alone [simp]: "meanwhile (alone k) s = s"
  by (simp add: meanwhile_def alone_def)

lemma users_called [simp]: "users (called a s) = users s"
  by (simp add: called_def)

lemma page_empty [simp]: "take page_size xs = [] \<longleftrightarrow> xs = []"
  by (simp add: page_size_def)

lemma page_first [simp]: "take page_size (x # xs) = x # take 24 xs"
  by (simp add: page_size_def)

lemma page_positive [simp]: "0 < page_size" "page_size \<noteq> 0"
  by (simp_all add: page_size_def)

lemma page_cons_iff [simp]:
  "take page_size xs = y # ys \<longleftrightarrow> (\<exists>zs. xs = y # zs \<and> ys = take 24 zs)"
  by (cases xs) auto

lemma register_missing:
  "\<not> truthy_str (bsvAddress p) \<or> \<not> truthy_str (appPublicKey p)
     \<or> \<not> truthy_str (signature p) \<or> \<not> truthy_num (timestamp p)
   \<Longrightarrow> register d now p s = (rejection 400 ''MISSING_FIELDS'', s)"
  by (simp add: register_def)

lemma auth_or_register_missing:
  "\<not> truthy_str (appPublicKey p) \<or> \<not> truthy_num (timestamp p) \<or> \<not> truthy_str (signature p)
   \<Longrightarrow> auth_or_register others now p s = (rejection 400 ''MISSING_FIELDS'', s)"
  by (simp add: auth_or_register_def)

lemma register_expired:
  "truthy_str (bsvAddress p) \<Longrightarrow> truthy_str (appPublicKey p) \<Longrightarrow> truthy_str (signature p)
   \<Longrightarrow> truthy_num (timestamp p) \<Longrightarrow> expired now (timestamp p)
   \<Longrightarrow> register d now p s = (rejection 400 ''EXPIRED_REQUEST'', s)"
  by (simp add: register_def)

lemma register_fresh_code:
  "\<not> expired now (timestamp p)
   \<Longrightarrow> code (fst (register d now p s)) \<noteq> Some ''EXPIRED_REQUEST''"
  by (simp add: register_def rejection_def accepted_def Let_def split: prod.splits sum.splits)

lemma auth_or_register_expired:
  "truthy_str (appPublicKey p) \<Longrightarrow> truthy_str (signature p) \<Longrightarrow> truthy_num (timestamp p)
   \<Longrightarrow> expired now (timestamp p)
   \<Longrightarrow> auth_or_register others now p s = (rejection 400 ''EXPIRED_REQUEST'', s)"
  by (simp add: auth_or_register_def)

lemma auth_or_register_fresh_code:
  "\<not> expired now (timestamp p)
   \<Longrightarrow> code (fst (auth_or_register others now p s)) \<noteq> Some ''EXPIRED_REQUEST''"
  by (simp add: auth_or_register_def rejection_def accepted_def Let_def
           split: prod.splits sum.splits list.splits)

lemmas example_defs = request_pk1_def request_pk2_def empty_directory_def bob_pk1_directory_def
  bob_pk2_directory_def stored_def newUserDoc_def unique_id_def or_null_def
  truthy_str_def truthy_num_def expired_def verified_def

lemmas run_defs = register_def authenticate_def auth_or_register_def grant_user_role_def
  list_users_def create_user_def update_user_def create_role_doc_def called_def meanwhile_def
  alone_def rejection_def accepted_def new_user_doc_def default_role_doc_def or_else_def
  collect_updates_def keys_length_def differs_def apply_updates_def register_js_directory_def
  Let_def

section \<open>Required fields\<close>

text \<open>
  Claim C7. An envelope that lacks the claimed public key, the signature or the
  timestamp is answered with status 400 and code \<^verbatim>\<open>MISSING_FIELDS\<close>, by the register
  handler and by auth-or-register alike, and the directory the handler leaves behind is
  the one it was given: no document changed and no call was recorded.
\<close>

theorem missing_fields_no_directory_access:
  assumes "appPublicKey p = None \<or> signature p = None \<or> timestamp p = None"
  shows "status (fst (register d now p s)) = 400
       \<and> code (fst (register d now p s)) = Some ''MISSING_FIELDS''
       \<and> snd (register d now p s) = s
       \<and> status (fst (auth_or_register others now p s)) = 400
       \<and> code (fst (auth_or_register others now p s)) = Some ''MISSING_FIELDS''
       \<and> snd (auth_or_register others now p s) = s"
proof -
  from assms have m: "\<not> truthy_str (appPublicKey p) \<or> \<not> truthy_num (timestamp p)
      \<or> \<not> truthy_str (signature p)"
    by (auto simp: truthy_str_def truthy_num_def)
  then have "register d now p s = (rejection 400 ''MISSING_FIELDS'', s)"
    by (intro register_missing) blast
  moreover from m have "auth_or_register others now p s = (rejection 400 ''MISSING_FIELDS'', s)"
    by (rule auth_or_register_missing)
  ultimately show ?thesis by (simp add: rejection_def)
qed

theorem missing_fields_no_directory_access_witness:
  "signature (request_pk1\<lparr>signature := None\<rparr>) = None
   \<and> code (fst (register None 1700000000001 (request_pk1\<lparr>signature := None\<rparr>) empty_directory))
       = Some ''MISSING_FIELDS''
   \<and> accesses (snd (register None 1700000000001 (request_pk1\<lparr>signature := None\<rparr>) empty_directory)) = []
   \<and> code (fst (auth_or_register alone 1700000000001 (request_pk1\<lparr>signature := None\<rparr>) empty_directory))
       = Some ''MISSING_FIELDS''
   \<and> accesses (snd (auth_or_register alone 1700000000001 (request_pk1\<lparr>signature := None\<rparr>) empty_directory)) = []"
  using missing_fields_no_directory_access
          [where p = "request_pk1\<lparr>signature := None\<rparr>" and d = None and now = 1700000000001
             and s = empty_directory and others = alone]
  by (simp add: empty_directory_def)

text \<open>
  Claim C10. The required-field check is \<^verbatim>\<open>!appPublicKey || !timestamp || !signature\<close>, so
  a timestamp that is present and equal to 0, or a key or signature that is present and
  the empty string, is answered with \<^verbatim>\<open>MISSING_FIELDS\<close> whatever the clock reads: the
  freshness check is not reached and \<^verbatim>\<open>EXPIRED_REQUEST\<close> is not the answer.
\<close>

theorem falsy_fields_are_missing_fields:
  assumes "timestamp p = Some 0 \<or> appPublicKey p = Some [] \<or> signature p = Some []"
  shows "status (fst (register d now p s)) = 400
       \<and> code (fst (register d now p s)) = Some ''MISSING_FIELDS''
       \<and> code (fst (register d now p s)) \<noteq> Some ''EXPIRED_REQUEST''
       \<and> status (fst (auth_or_register others now p s)) = 400
       \<and> code (fst (auth_or_register others now p s)) = Some ''MISSING_FIELDS''
       \<and> code (fst (auth_or_register others now p s)) \<noteq> Some ''EXPIRED_REQUEST''"
proof -
  from assms have m: "\<not> truthy_str (appPublicKey p) \<or> \<not> truthy_num (timestamp p)
      \<or> \<not> truthy_str (signature p)"
    by (auto simp: truthy_str_def truthy_num_def)
  then have "register d now p s = (rejection 400 ''MISSING_FIELDS'', s)"
    by (intro register_missing) blast
  moreover from m have "auth_or_register others now p s = (rejection 400 ''MISSING_FIELDS'', s)"
    by (rule auth_or_register_missing)
  ultimately show ?thesis by (simp add: rejection_def)
qed

theorem falsy_fields_are_missing_fields_witness:
  "timestamp (request_pk1\<lparr>timestamp := Some 0\<rparr>) = Some 0
   \<and> \<bar>1700000000001 - (0::int)\<bar> > 300000
   \<and> code (fst (register None 1700000000001 (request_pk1\<lparr>timestamp := Some 0\<rparr>) empty_directory))
       = Some ''MISSING_FIELDS''
   \<and> code (fst (auth_or_register alone 1700000000001 (request_pk1\<lparr>timestamp := Some 0\<rparr>) empty_directory))
       = Some ''MISSING_FIELDS''"
  using falsy_fields_are_missing_fields
          [where p = "request_pk1\<lparr>timestamp := Some 0\<rparr>" and d = None and now = 1700000000001
             and s = empty_directory and others = alone]
  by simp

section \<open>Freshness\<close>

text \<open>
  Claim C2. For an envelope whose required fields are all present, in the sense of the
  handler's own check (non-empty key and signature, and for the register handler a
  non-empty address; a non-zero timestamp \<open>t\<close>), the answer carries the code
  \<^verbatim>\<open>EXPIRED_REQUEST\<close> exactly when \<open>\<bar>now - t\<bar> > 300000\<close>, and then with status 400. The window is symmetric: the
  same bound applies to a timestamp behind the clock and to one ahead of it, so
  300001 ms either way is rejected and 299999 ms either way is not.
\<close>

theorem expired_request_iff_outside_window:
  assumes "truthy_str (appPublicKey p)" "truthy_str (signature p)"
    and "timestamp p = Some t" "t \<noteq> 0"
  shows "(truthy_str (bsvAddress p) \<longrightarrow>
           (code (fst (register d now p s)) = Some ''EXPIRED_REQUEST'' \<longleftrightarrow> \<bar>now - t\<bar> > 300000)
           \<and> (\<bar>now - t\<bar> > 300000 \<longrightarrow> status (fst (register d now p s)) = 400))
       \<and> (code (fst (auth_or_register others now p s)) = Some ''EXPIRED_REQUEST''
            \<longleftrightarrow> \<bar>now - t\<bar> > 300000)
       \<and> (\<bar>now - t\<bar> > 300000 \<longrightarrow> status (fst (auth_or_register others now p s)) = 400)"
proof -
  have tn: "truthy_num (timestamp p)"
    using assms by (simp add: truthy_num_def)
  have ex: "expired now (timestamp p) \<longleftrightarrow> \<bar>now - t\<bar> > 300000"
    using assms by (simp add: expired_def)
  show ?thesis
  proof (cases "expired now (timestamp p)")
    case True
    then have "auth_or_register others now p s = (rejection 400 ''EXPIRED_REQUEST'', s)"
      using assms tn by (intro auth_or_register_expired)
    moreover have "truthy_str (bsvAddress p)
        \<Longrightarrow> register d now p s = (rejection 400 ''EXPIRED_REQUEST'', s)"
      using True assms tn by (intro register_expired)
    ultimately show ?thesis
      using True ex by (auto simp: rejection_def)
  next
    case False
    then show ?thesis
      using ex register_fresh_code[of now p d s] auth_or_register_fresh_code[of now p others s]
      by auto
  qed
qed

theorem expired_request_iff_outside_window_witness:
  "code (fst (register None (1700000000000 + 300001) request_pk1 empty_directory))
      = Some ''EXPIRED_REQUEST''
   \<and> code (fst (auth_or_register alone (1700000000000 + 300001) request_pk1 empty_directory))
      = Some ''EXPIRED_REQUEST''
   \<and> code (fst (auth_or_register alone (1700000000000 - 300001) request_pk1 empty_directory))
      = Some ''EXPIRED_REQUEST''
   \<and> code (fst (auth_or_register alone (1700000000000 + 299999) request_pk1 empty_directory))
      \<noteq> Some ''EXPIRED_REQUEST''
   \<and> code (fst (auth_or_register alone (1700000000000 - 299999) request_pk1 empty_directory))
      \<noteq> Some ''EXPIRED_REQUEST''
   \<and> code (fst (register None (1700000000000 - 299999) request_pk1 empty_directory))
      \<noteq> Some ''EXPIRED_REQUEST''"
  using expired_request_iff_outside_window
          [where p = request_pk1 and t = 1700000000000 and d = None and s = empty_directory
             and others = alone and now = "1700000000000 + 300001"]
        expired_request_iff_outside_window
          [where p = request_pk1 and t = 1700000000000 and d = None and s = empty_directory
             and others = alone and now = "1700000000000 - 300001"]
        expired_request_iff_outside_window
          [where p = request_pk1 and t = 1700000000000 and d = None and s = empty_directory
             and others = alone and now = "1700000000000 + 299999"]
        expired_request_iff_outside_window
          [where p = request_pk1 and t = 1700000000000 and d = None and s = empty_directory
             and others = alone and now = "1700000000000 - 299999"]
  by (simp add: request_pk1_def truthy_str_def)

section \<open>Replay and username uniqueness in auth-or-register\<close>

lemma filter_hd_mem: "filter P xs = u # rest \<Longrightarrow> u \<in> set xs \<and> P u"
proof -
  assume "filter P xs = u # rest"
  then have "u \<in> set (filter P xs)" by simp
  then show ?thesis by simp
qed

lemma find_id_some: "u \<in> set xs \<Longrightarrow> find (\<lambda>v. u_id v = u_id u) xs \<noteq> None"
  by (simp add: find_None_iff) blast

lemma aor_taken:
  assumes "verified now p" "filter (\<lambda>u. u_appPublicKey u = appPublicKey p) (users s) = []"
    "truthy_str (username p)" "filter (\<lambda>u. u_username u = username p) (users s) \<noteq> []"
  shows "auth_or_register alone now p s =
           (rejection 409 ''USERNAME_TAKEN'', called (ListDocuments USERS) (called (ListDocuments USERS) s))"
  using assms by (simp add: auth_or_register_def verified_def list_users_def)

lemma aor_create:
  assumes "verified now p" "filter (\<lambda>u. u_appPublicKey u = appPublicKey p) (users s) = []"
    "truthy_str (username p) \<longrightarrow> filter (\<lambda>u. u_username u = username p) (users s) = []"
  shows "fst (auth_or_register alone now p s) = accepted 200 (Some True) (stored p (users s))
       \<and> users (snd (auth_or_register alone now p s)) = users s @ [stored p (users s)]"
proof -
  have nodup: "\<not> list_ex (\<lambda>u. u_appPublicKey u = u_appPublicKey (newUserDoc p)) (users s)"
    using assms(2) by (simp add: newUserDoc_def list_ex_iff filter_empty_conv)
  have cr: "\<And>s'. users s' = users s \<Longrightarrow> fst (create_user (newUserDoc p) s') = Inr (stored p (users s))
      \<and> users (snd (create_user (newUserDoc p) s')) = users s @ [stored p (users s)]"
    using nodup by (simp add: create_user_def Let_def stored_def newUserDoc_def)
  show ?thesis
    using assms cr[of "called (ListDocuments USERS) s"]
      cr[of "called (ListDocuments USERS) (called (ListDocuments USERS) s)"]
    by (auto simp add: auth_or_register_def verified_def list_users_def split: prod.splits sum.splits)
qed

lemma aor_found:
  assumes "verified now p" "filter (\<lambda>u. u_appPublicKey u = appPublicKey p) (users s) = u # rest"
  shows "\<exists>u'. fst (auth_or_register alone now p s) = accepted 200 (Some False) u'"
    and "users (snd (auth_or_register alone now p s)) =
          (if keys_length (collect_updates p u) > 0
           then map (\<lambda>v. if u_id v = u_id u then apply_updates (collect_updates p u) v else v) (users s)
           else users s)"
proof -
  have "u \<in> set (users s)" using assms(2) filter_hd_mem by fastforce
  then obtain w where w: "find (\<lambda>v. u_id v = u_id u) (users s) = Some w"
    using find_id_some by blast
  show "\<exists>u'. fst (auth_or_register alone now p s) = accepted 200 (Some False) u'"
    using assms w by (auto simp add: auth_or_register_def verified_def list_users_def update_user_def Let_def)
  show "users (snd (auth_or_register alone now p s)) =
          (if keys_length (collect_updates p u) > 0
           then map (\<lambda>v. if u_id v = u_id u then apply_updates (collect_updates p u) v else v) (users s)
           else users s)"
    using assms w by (simp add: auth_or_register_def verified_def list_users_def update_user_def Let_def)
qed

lemma differs_settled:
  "differs v (case differs v st of None \<Rightarrow> st | Some x \<Rightarrow> Some x) = None"
  by (cases v) (auto simp: differs_def truthy_str_def)

lemma collect_after_apply:
  "keys_length (collect_updates p (apply_updates (collect_updates p u) u)) = 0"
  by (simp add: keys_length_def collect_updates_def apply_updates_def differs_settled)

lemma collect_stored: "keys_length (collect_updates p (stored p us)) = 0"
  by (simp add: keys_length_def collect_updates_def stored_def newUserDoc_def differs_def or_null_def)

lemma key_apply_updates [simp]: "u_appPublicKey (apply_updates upd u) = u_appPublicKey u"
  by (simp add: apply_updates_def)

lemma key_stored [simp]: "u_appPublicKey (stored p us) = appPublicKey p"
  by (simp add: stored_def newUserDoc_def)

lemma filter_key_updated:
  assumes "filter (\<lambda>v. u_appPublicKey v = k) xs = u # rest"
  shows "filter (\<lambda>v. u_appPublicKey v = k)
           (map (\<lambda>v. if u_id v = u_id u then apply_updates upd v else v) xs)
         = apply_updates upd u # map (\<lambda>v. if u_id v = u_id u then apply_updates upd v else v) rest"
proof -
  let ?g = "\<lambda>v. if u_id v = u_id u then apply_updates upd v else v"
  have "filter (\<lambda>v. u_appPublicKey v = k) (map ?g xs) = map ?g (filter (\<lambda>v. u_appPublicKey v = k) xs)"
    by (induction xs) auto
  then show ?thesis using assms by simp
qed

text \<open>A replay of an accepted request is accepted again and writes nothing.\<close>

lemma aor_replay:
  assumes vA: "verified nowA p" and vB: "verified nowB p"
    and acc: "success (fst (auth_or_register alone nowA p s))"
  shows "(\<exists>u'. fst (auth_or_register alone nowB p (snd (auth_or_register alone nowA p s)))
                 = accepted 200 (Some False) u')
       \<and> users (snd (auth_or_register alone nowB p (snd (auth_or_register alone nowA p s))))
           = users (snd (auth_or_register alone nowA p s))"
proof (cases "filter (\<lambda>u. u_appPublicKey u = appPublicKey p) (users s)")
  case Nil
  show ?thesis
  proof (cases "truthy_str (username p) \<and> filter (\<lambda>u. u_username u = username p) (users s) \<noteq> []")
    case True
    then have "\<not> success (fst (auth_or_register alone nowA p s))"
      using aor_taken[OF vA Nil] by (simp add: rejection_def)
    with acc show ?thesis by simp
  next
    case False
    then have c: "users (snd (auth_or_register alone nowA p s)) = users s @ [stored p (users s)]"
      using aor_create[OF vA Nil] by blast
    have f: "filter (\<lambda>u. u_appPublicKey u = appPublicKey p) (users (snd (auth_or_register alone nowA p s)))
               = stored p (users s) # []"
      using c Nil by simp
    show ?thesis
      using aor_found[OF vB f] by (simp add: collect_stored)
  qed
next
  case (Cons u rest)
  let ?upd = "collect_updates p u"
  show ?thesis
  proof (cases "keys_length ?upd > 0")
    case True
    then have c: "users (snd (auth_or_register alone nowA p s))
         = map (\<lambda>v. if u_id v = u_id u then apply_updates ?upd v else v) (users s)"
      using aor_found(2)[OF vA Cons] by simp
    have f: "filter (\<lambda>u. u_appPublicKey u = appPublicKey p) (users (snd (auth_or_register alone nowA p s)))
         = apply_updates ?upd u # map (\<lambda>v. if u_id v = u_id u then apply_updates ?upd v else v) rest"
      unfolding c by (rule filter_key_updated[OF Cons])
    show ?thesis
      using aor_found[OF vB f] by (simp add: collect_after_apply)
  next
    case False
    then have c: "users (snd (auth_or_register alone nowA p s)) = users s"
      using aor_found(2)[OF vA Cons] by simp
    have f: "filter (\<lambda>u. u_appPublicKey u = appPublicKey p) (users (snd (auth_or_register alone nowA p s)))
         = u # rest"
      using c Cons by simp
    show ?thesis
      using aor_found[OF vB f] False by simp
  qed
qed


lemma aor_alone_length:
  assumes "verified now p"
  shows "length (users (snd (auth_or_register alone now p s))) \<le> length (users s) + 1"
    and "\<not> success (fst (auth_or_register alone now p s))
         \<Longrightarrow> users (snd (auth_or_register alone now p s)) = users s"
proof -
  let ?K = "filter (\<lambda>u. u_appPublicKey u = appPublicKey p) (users s)"
  have "length (users (snd (auth_or_register alone now p s))) \<le> length (users s) + 1
      \<and> (\<not> success (fst (auth_or_register alone now p s))
           \<longrightarrow> users (snd (auth_or_register alone now p s)) = users s)"
  proof (cases ?K)
    case Nil
    show ?thesis
    proof (cases "truthy_str (username p) \<and> filter (\<lambda>u. u_username u = username p) (users s) \<noteq> []")
      case True
      then show ?thesis using aor_taken[OF assms Nil] by simp
    next
      case False
      then show ?thesis using aor_create[OF assms Nil] by (auto simp: accepted_def)
    qed
  next
    case (Cons u rest)
    obtain u' where "fst (auth_or_register alone now p s) = accepted 200 (Some False) u'"
      using aor_found(1)[OF assms Cons] by blast
    then show ?thesis using aor_found(2)[OF assms Cons] by (simp add: accepted_def)
  qed
  then show "length (users (snd (auth_or_register alone now p s))) \<le> length (users s) + 1"
    and "\<not> success (fst (auth_or_register alone now p s))
         \<Longrightarrow> users (snd (auth_or_register alone now p s)) = users s"
    by blast+
qed


text \<open>
  Claim C4. A valid envelope (required fields truthy, timestamp inside the window at both
  submissions) is submitted twice in sequence to auth-or-register. The two submissions
  together never add more than one record. Whenever the first submission is accepted,
  the second one is accepted with status 200 and \<^verbatim>\<open>isNewUser = false\<close> and leaves the users
  collection as the first one left it. When the key is not yet registered and the
  username, if one is supplied, is free, the first submission answers \<^verbatim>\<open>isNewUser = true\<close>,
  the second \<^verbatim>\<open>isNewUser = false\<close>, exactly one record has been added and exactly one
  record carries the key.
\<close>

theorem replay_creates_no_second_record:
  assumes "verified nowA p" and "verified nowB p"
    and "auth_or_register alone nowA p s = (rA, sA)"
    and "auth_or_register alone nowB p sA = (rB, sB)"
  shows "length (users sB) \<le> length (users s) + 1
       \<and> (success rA \<longrightarrow>
            success rB \<and> status rB = 200 \<and> isNewUser rB = Some False \<and> users sB = users sA)
       \<and> ((\<forall>u\<in>set (users s). u_appPublicKey u \<noteq> appPublicKey p
                \<and> (truthy_str (username p) \<longrightarrow> u_username u \<noteq> username p)) \<longrightarrow>
            isNewUser rA = Some True \<and> isNewUser rB = Some False
            \<and> length (users sB) = length (users s) + 1
            \<and> length (filter (\<lambda>u. u_appPublicKey u = appPublicKey p) (users sB)) = 1)"
proof -
  have rA: "rA = fst (auth_or_register alone nowA p s)" and sA: "sA = snd (auth_or_register alone nowA p s)"
    using assms(3) by simp_all
  have rB: "rB = fst (auth_or_register alone nowB p sA)" and sB: "sB = snd (auth_or_register alone nowB p sA)"
    using assms(4) by simp_all
  have B: "success rA \<Longrightarrow>
      success rB \<and> status rB = 200 \<and> isNewUser rB = Some False \<and> users sB = users sA"
    using aor_replay[OF assms(1,2), of s] unfolding rA rB sA sB by (auto simp: accepted_def)
  have lA: "length (users sA) \<le> length (users s) + 1"
    unfolding sA by (rule aor_alone_length(1)[OF assms(1)])
  have lB: "length (users sB) \<le> length (users sA) + 1"
    unfolding sB by (rule aor_alone_length(1)[OF assms(2)])
  have A: "length (users sB) \<le> length (users s) + 1"
  proof (cases "success rA")
    case True
    then show ?thesis using B lA by simp
  next
    case False
    then have "users sA = users s"
      unfolding rA sA by (rule aor_alone_length(2)[OF assms(1)])
    then show ?thesis using lB by simp
  qed
  have C: "isNewUser rA = Some True \<and> isNewUser rB = Some False
            \<and> length (users sB) = length (users s) + 1
            \<and> length (filter (\<lambda>u. u_appPublicKey u = appPublicKey p) (users sB)) = 1"
    if new: "\<forall>u\<in>set (users s). u_appPublicKey u \<noteq> appPublicKey p
                \<and> (truthy_str (username p) \<longrightarrow> u_username u \<noteq> username p)"
  proof -
    have nk: "filter (\<lambda>u. u_appPublicKey u = appPublicKey p) (users s) = []"
      using new by (simp add: filter_empty_conv)
    have nu: "truthy_str (username p) \<longrightarrow> filter (\<lambda>u. u_username u = username p) (users s) = []"
      using new by (simp add: filter_empty_conv)
    have c: "rA = accepted 200 (Some True) (stored p (users s))"
      "users sA = users s @ [stored p (users s)]"
      using aor_create[OF assms(1) nk nu] unfolding rA sA by simp_all
    then have "success rA" by (simp add: accepted_def)
    from B[OF this] c nk show ?thesis by (simp add: accepted_def)
  qed
  from A B C show ?thesis by blast
qed

theorem replay_creates_no_second_record_witness:
  "isNewUser (fst (auth_or_register alone 1700000000001 request_pk1 empty_directory)) = Some True
   \<and> isNewUser (fst (auth_or_register alone 1700000000002 request_pk1
        (snd (auth_or_register alone 1700000000001 request_pk1 empty_directory)))) = Some False
   \<and> length (users (snd (auth_or_register alone 1700000000002 request_pk1
        (snd (auth_or_register alone 1700000000001 request_pk1 empty_directory))))) = 1"
  using replay_creates_no_second_record
          [where p = request_pk1 and nowA = 1700000000001 and nowB = 1700000000002
             and s = empty_directory
             and rA = "fst (auth_or_register alone 1700000000001 request_pk1 empty_directory)"
             and sA = "snd (auth_or_register alone 1700000000001 request_pk1 empty_directory)"
             and rB = "fst (auth_or_register alone 1700000000002 request_pk1
                         (snd (auth_or_register alone 1700000000001 request_pk1 empty_directory)))"
             and sB = "snd (auth_or_register alone 1700000000002 request_pk1
                         (snd (auth_or_register alone 1700000000001 request_pk1 empty_directory)))"]
  by (simp add: verified_def truthy_str_def truthy_num_def expired_def request_pk1_def
        empty_directory_def)

text \<open>
  Claim C6. On the NotFound path (no record carries the key), a supplied username that
  some record already holds is answered with status 409 and code \<^verbatim>\<open>USERNAME_TAKEN\<close>;
  the users collection is unchanged and the handler has made two lookups and no create.
  A submission for a registered user that carries that user's own username is accepted
  with status 200 and \<^verbatim>\<open>isNewUser = false\<close>, and no stored username changes.
\<close>

theorem username_taken_rejected:
  assumes "verified now p"
  shows "((\<forall>u\<in>set (users s). u_appPublicKey u \<noteq> appPublicKey p)
            \<and> truthy_str (username p) \<and> (\<exists>u\<in>set (users s). u_username u = username p) \<longrightarrow>
          status (fst (auth_or_register alone now p s)) = 409
          \<and> code (fst (auth_or_register alone now p s)) = Some ''USERNAME_TAKEN''
          \<and> \<not> success (fst (auth_or_register alone now p s))
          \<and> users (snd (auth_or_register alone now p s)) = users s
          \<and> accesses (snd (auth_or_register alone now p s))
              = accesses s @ [ListDocuments USERS, ListDocuments USERS])
       \<and> (\<forall>u rest. filter (\<lambda>u. u_appPublicKey u = appPublicKey p) (users s) = u # rest
                     \<and> u_username u = username p \<longrightarrow>
          status (fst (auth_or_register alone now p s)) = 200
          \<and> success (fst (auth_or_register alone now p s))
          \<and> code (fst (auth_or_register alone now p s)) = None
          \<and> isNewUser (fst (auth_or_register alone now p s)) = Some False
          \<and> map u_username (users (snd (auth_or_register alone now p s))) = map u_username (users s))"
proof -
  have A: "status (fst (auth_or_register alone now p s)) = 409
          \<and> code (fst (auth_or_register alone now p s)) = Some ''USERNAME_TAKEN''
          \<and> \<not> success (fst (auth_or_register alone now p s))
          \<and> users (snd (auth_or_register alone now p s)) = users s
          \<and> accesses (snd (auth_or_register alone now p s))
              = accesses s @ [ListDocuments USERS, ListDocuments USERS]"
    if "\<forall>u\<in>set (users s). u_appPublicKey u \<noteq> appPublicKey p"
      and "truthy_str (username p)" and "\<exists>u\<in>set (users s). u_username u = username p"
  proof -
    have nk: "filter (\<lambda>u. u_appPublicKey u = appPublicKey p) (users s) = []"
      using that(1) by (simp add: filter_empty_conv)
    have tk: "filter (\<lambda>u. u_username u = username p) (users s) \<noteq> []"
      using that(3) by (simp add: filter_empty_conv)
    show ?thesis
      using aor_taken[OF assms nk that(2) tk] by (simp add: rejection_def called_def)
  qed
  have B: "status (fst (auth_or_register alone now p s)) = 200
          \<and> success (fst (auth_or_register alone now p s))
          \<and> code (fst (auth_or_register alone now p s)) = None
          \<and> isNewUser (fst (auth_or_register alone now p s)) = Some False
          \<and> map u_username (users (snd (auth_or_register alone now p s))) = map u_username (users s)"
    if f: "filter (\<lambda>u. u_appPublicKey u = appPublicKey p) (users s) = u # rest"
      and own: "u_username u = username p" for u rest
  proof -
    have "set_username (collect_updates p u) = None"
      using own by (simp add: collect_updates_def differs_def)
    then have keep: "u_username (apply_updates (collect_updates p u) v) = u_username v" for v
      by (simp add: apply_updates_def)
    have "map u_username (map (\<lambda>v. if u_id v = u_id u then apply_updates (collect_updates p u) v else v) xs)
            = map u_username xs" for xs
      by (induction xs) (simp_all add: keep)
    then show ?thesis
      using aor_found[OF assms f] by (auto simp: accepted_def)
  qed
  from A B show ?thesis by blast
qed

theorem username_taken_rejected_witness:
  "code (fst (auth_or_register alone 1700000000001 request_pk1 bob_pk2_directory)) = Some ''USERNAME_TAKEN''
   \<and> status (fst (auth_or_register alone 1700000000001 request_pk1 bob_pk2_directory)) = 409
   \<and> users (snd (auth_or_register alone 1700000000001 request_pk1 bob_pk2_directory)) = users bob_pk2_directory
   \<and> success (fst (auth_or_register alone 1700000000001 request_pk1 bob_pk1_directory))
   \<and> isNewUser (fst (auth_or_register alone 1700000000001 request_pk1 bob_pk1_directory)) = Some False"
  using username_taken_rejected
          [where p = request_pk1 and now = 1700000000001 and s = bob_pk2_directory]
        username_taken_rejected
          [where p = request_pk1 and now = 1700000000001 and s = bob_pk1_directory]
  by (simp add: example_defs)

section \<open>Self-service role grants\<close>

lemma grant_decision:
  assumes "truthy_str (appPublicKey p)" "truthy_num (timestamp p)" "truthy_str (signature p)"
    and "role p = Some r" "r \<in> set validRoles" "\<not> expired now (timestamp p)"
    and "filter (\<lambda>u. u_appPublicKey u = appPublicKey p) (users s) = caller # rest"
  shows "(\<exists>u\<in>set (take page_size (users s)). holds_admin u) \<and> \<not> holds_admin caller
         \<Longrightarrow> grant_user_role now p s =
               (rejection 403 ''UNAUTHORIZED'', called (ListDocuments USERS) (called (ListDocuments USERS) s))"
    and "\<not> (\<exists>u\<in>set (take page_size (users s)). holds_admin u) \<or> holds_admin caller
         \<Longrightarrow> \<exists>w. w \<in> set (users s) \<and> u_id w = u_id caller
               \<and> fst (grant_user_role now p s) =
                   accepted 200 None
                     (w\<lparr>u_roles := Some (if r \<in> set (parse_roles (u_roles caller))
                                          then parse_roles (u_roles caller)
                                          else parse_roles (u_roles caller) @ [r]),
                        u_status := Some ''active''\<rparr>)
               \<and> users (snd (grant_user_role now p s)) = granted r caller (users s)
               \<and> accesses (snd (grant_user_role now p s))
                   = accesses s @ [ListDocuments USERS, ListDocuments USERS, UpdateDocument USERS]"
proof -
  have tr: "truthy_str (role p)"
    using assms(4,5) by (auto simp: truthy_str_def validRoles_def)
  have inc: "array_includes validRoles (role p)"
    using assms(4,5) by (simp add: array_includes_def)
  have mem: "caller \<in> set (users s)"
    using assms(7) filter_hd_mem by fastforce
  then obtain w where w: "find (\<lambda>v. u_id v = u_id caller) (users s) = Some w"
    using find_id_some by blast
  then have wm: "w \<in> set (users s) \<and> u_id w = u_id caller"
    by (auto simp: find_Some_iff)
  have adm: "holds_admin caller \<longleftrightarrow> array_includes (parse_roles (u_roles caller)) (Some ''admin'')"
    by (simp add: holds_admin_def)
  show "grant_user_role now p s =
               (rejection 403 ''UNAUTHORIZED'', called (ListDocuments USERS) (called (ListDocuments USERS) s))"
    if "(\<exists>u\<in>set (take page_size (users s)). holds_admin u) \<and> \<not> holds_admin caller"
    using that assms tr inc adm
    by (simp add: grant_user_role_def list_users_def Let_def list_ex_iff)
  show "\<exists>w. w \<in> set (users s) \<and> u_id w = u_id caller
               \<and> fst (grant_user_role now p s) =
                   accepted 200 None
                     (w\<lparr>u_roles := Some (if r \<in> set (parse_roles (u_roles caller))
                                          then parse_roles (u_roles caller)
                                          else parse_roles (u_roles caller) @ [r]),
                        u_status := Some ''active''\<rparr>)
               \<and> users (snd (grant_user_role now p s)) = granted r caller (users s)
               \<and> accesses (snd (grant_user_role now p s))
                   = accesses s @ [ListDocuments USERS, ListDocuments USERS, UpdateDocument USERS]"
    if "\<not> (\<exists>u\<in>set (take page_size (users s)). holds_admin u) \<or> holds_admin caller"
  proof -
    have nogate: "\<not> (list_ex holds_admin (take page_size (users s))
        \<and> \<not> array_includes (parse_roles (u_roles caller)) (Some ''admin''))"
      using that adm by (auto simp: list_ex_iff)
    show ?thesis
      apply (rule exI[of _ w])
      using nogate assms tr inc w wm
      by (auto simp add: grant_user_role_def list_users_def Let_def update_user_def
            array_includes_def push_def granted_def called_def)
  qed
qed

lemma granted_holds:
  assumes "caller \<in> set us"
  shows "\<exists>v\<in>set (granted r caller us). u_id v = u_id caller
           \<and> u_appPublicKey v = u_appPublicKey caller
           \<and> r \<in> set (parse_roles (u_roles v)) \<and> u_status v = Some ''active''"
proof -
  let ?v = "caller\<lparr>u_roles := Some (if r \<in> set (parse_roles (u_roles caller))
                                        then parse_roles (u_roles caller)
                                        else parse_roles (u_roles caller) @ [r]),
                   u_status := Some ''active''\<rparr>"
  have "?v \<in> set (granted r caller us)"
    using assms by (force simp: granted_def)
  moreover have "u_id ?v = u_id caller \<and> u_appPublicKey ?v = u_appPublicKey caller
      \<and> r \<in> set (parse_roles (u_roles ?v)) \<and> u_status ?v = Some ''active''"
    by (simp add: parse_roles_def)
  ultimately show ?thesis by blast
qed

text \<open>
  Claim C5 is right about what the handler sets out to do
  (\<^verbatim>\<open>// Check if any admin exists in the system\<close>,
  \<^verbatim>\<open>[] // Get all users to check for existing admins\<close>), and the code misses it: the scan
  for an existing admin reads one answer of \<^verbatim>\<open>listDocuments\<close>, which holds the first 25
  documents only. For a request that has passed the field, role-name and freshness checks
  and whose caller is registered (\<open>caller\<close> is the first document the lookup by key
  returns):
  \<^item> if no record of the directory holds \<^verbatim>\<open>admin\<close>, the grant succeeds: the answer is
    status 200 and the caller's record is stored with the role, as the claim says;
  \<^item> if the caller holds \<^verbatim>\<open>admin\<close>, the grant succeeds, as the claim says;
  \<^item> if a record among the first 25 holds \<^verbatim>\<open>admin\<close> and the caller does not, the answer
    is status 403 with code \<^verbatim>\<open>UNAUTHORIZED\<close> and nothing is written, as the claim says;
  \<^item> if no record among the first 25 holds \<^verbatim>\<open>admin\<close>, the grant succeeds, also when an
    admin exists further down the collection and the caller is not one: there the claim
    says 403.
\<close>

theorem self_service_grant_scans_one_page:
  assumes "truthy_str (appPublicKey p)" "truthy_num (timestamp p)" "truthy_str (signature p)"
    and "role p = Some r" "r \<in> set validRoles" "\<not> expired now (timestamp p)"
    and "filter (\<lambda>u. u_appPublicKey u = appPublicKey p) (users s) = caller # rest"
  shows "(\<not> (\<exists>u\<in>set (users s). holds_admin u) \<or> holds_admin caller
            \<or> \<not> (\<exists>u\<in>set (take page_size (users s)). holds_admin u) \<longrightarrow>
            status (fst (grant_user_role now p s)) = 200
            \<and> success (fst (grant_user_role now p s))
            \<and> users (snd (grant_user_role now p s)) = granted r caller (users s)
            \<and> (\<exists>v\<in>set (users (snd (grant_user_role now p s))).
                  u_id v = u_id caller \<and> u_appPublicKey v = appPublicKey p
                  \<and> r \<in> set (parse_roles (u_roles v)) \<and> u_status v = Some ''active''))
       \<and> ((\<exists>u\<in>set (take page_size (users s)). holds_admin u) \<and> \<not> holds_admin caller \<longrightarrow>
            status (fst (grant_user_role now p s)) = 403
            \<and> code (fst (grant_user_role now p s)) = Some ''UNAUTHORIZED''
            \<and> \<not> success (fst (grant_user_role now p s))
            \<and> users (snd (grant_user_role now p s)) = users s)"
proof -
  have mem: "caller \<in> set (users s)" and key: "u_appPublicKey caller = appPublicKey p"
    using assms(7) filter_hd_mem[of "\<lambda>u. u_appPublicKey u = appPublicKey p" "users s" caller rest]
    by simp_all
  have sub: "\<not> (\<exists>u\<in>set (users s). holds_admin u)
      \<Longrightarrow> \<not> (\<exists>u\<in>set (take page_size (users s)). holds_admin u)"
    by (meson in_set_takeD)
  have yes: "status (fst (grant_user_role now p s)) = 200
            \<and> success (fst (grant_user_role now p s))
            \<and> users (snd (grant_user_role now p s)) = granted r caller (users s)
            \<and> (\<exists>v\<in>set (users (snd (grant_user_role now p s))).
                  u_id v = u_id caller \<and> u_appPublicKey v = appPublicKey p
                  \<and> r \<in> set (parse_roles (u_roles v)) \<and> u_status v = Some ''active'')"
    if open_gate: "\<not> (\<exists>u\<in>set (take page_size (users s)). holds_admin u) \<or> holds_admin caller"
  proof -
    obtain w where "fst (grant_user_role now p s) =
                   accepted 200 None
                     (w\<lparr>u_roles := Some (if r \<in> set (parse_roles (u_roles caller))
                                          then parse_roles (u_roles caller)
                                          else parse_roles (u_roles caller) @ [r]),
                        u_status := Some ''active''\<rparr>)"
      and u: "users (snd (grant_user_role now p s)) = granted r caller (users s)"
      using grant_decision(2)[OF assms open_gate] by blast
    then show ?thesis
      using granted_holds[OF mem, of r] key by (simp add: accepted_def)
  qed
  have no: "status (fst (grant_user_role now p s)) = 403
            \<and> code (fst (grant_user_role now p s)) = Some ''UNAUTHORIZED''
            \<and> \<not> success (fst (grant_user_role now p s))
            \<and> users (snd (grant_user_role now p s)) = users s"
    if "(\<exists>u\<in>set (take page_size (users s)). holds_admin u) \<and> \<not> holds_admin caller"
    using grant_decision(1)[OF assms that] by (simp add: rejection_def)
  from yes no sub show ?thesis by blast
qed

text \<open>
  At a concrete input: \<^verbatim>\<open>pk1\<close>, the 26th of 27 users, holds \<^verbatim>\<open>admin\<close>; \<^verbatim>\<open>pk2\<close>, the 27th,
  holds no role and asks for \<^verbatim>\<open>admin\<close>. The answer is status 200 and \<^verbatim>\<open>pk2\<close> is stored
  as admin.
\<close>

theorem self_service_grant_scans_one_page_witness:
  "(\<exists>u\<in>set (users crowded_directory). holds_admin u)
   \<and> \<not> holds_admin ((stored request_pk2 [])\<lparr>u_id := 27\<rparr>)
   \<and> status (fst (grant_user_role 1700000000001 request_pk2 crowded_directory)) = 200
   \<and> success (fst (grant_user_role 1700000000001 request_pk2 crowded_directory))
   \<and> (\<exists>v\<in>set (users (snd (grant_user_role 1700000000001 request_pk2 crowded_directory))).
         u_id v = 27 \<and> u_appPublicKey v = Some ''pk2''
         \<and> ''admin'' \<in> set (parse_roles (u_roles v)))"
proof -
  have adm: "\<exists>u\<in>set (users crowded_directory). holds_admin u"
    by (simp add: crowded_directory_def holds_admin_def parse_roles_def array_includes_def
          example_defs)
  have plain: "\<not> holds_admin ((stored request_pk2 [])\<lparr>u_id := 27\<rparr>)"
    by (simp add: holds_admin_def parse_roles_def array_includes_def example_defs)
  have page: "\<not> (\<exists>u\<in>set (take page_size (users crowded_directory)). holds_admin u)"
    by (simp add: crowded_directory_def page_size_def member_def holds_admin_def parse_roles_def
          array_includes_def newUserDoc_def)
  have first: "filter (\<lambda>u. u_appPublicKey u = appPublicKey request_pk2) (users crowded_directory)
                 = (stored request_pk2 [])\<lparr>u_id := 27\<rparr> # []"
    by (simp add: crowded_directory_def member_def example_defs)
  have hyp: "truthy_str (appPublicKey request_pk2)" "truthy_num (timestamp request_pk2)"
    "truthy_str (signature request_pk2)" "role request_pk2 = Some ''admin''"
    "''admin'' \<in> set validRoles" "\<not> expired 1700000000001 (timestamp request_pk2)"
    by (simp_all add: example_defs validRoles_def)
  have key: "appPublicKey request_pk2 = Some ''pk2''"
    by (simp add: example_defs)
  from self_service_grant_scans_one_page[OF hyp first] adm plain page key
  show ?thesis by auto
qed

section \<open>The registration race\<close>

text \<open>
  Claim C3, as the code has it. The lookup by key finds nothing and the username check
  passes, but by the time auth-or-register calls \<^verbatim>\<open>createDocument\<close> a concurrent request
  has stored a record with the same key. The unique index refuses the create, the call
  throws, and the handler's only \<^verbatim>\<open>catch\<close> block answers with status 500 and code
  \<^verbatim>\<open>AUTH_ERROR\<close>. The request stores nothing, and the refused create is its last call on
  the directory: there is no second lookup.
\<close>

theorem duplicate_key_answered_with_500:
  assumes "verified now p"
    and "\<forall>u\<in>set (users s). u_appPublicKey u \<noteq> appPublicKey p"
    and "truthy_str (username p) \<longrightarrow> (\<forall>u\<in>set (others 1 (users s)). u_username u \<noteq> username p)"
    and "\<exists>u\<in>set (users_at_create others p (users s)). u_appPublicKey u = appPublicKey p"
  shows "status (fst (auth_or_register others now p s)) = 500
       \<and> code (fst (auth_or_register others now p s)) = Some ''AUTH_ERROR''
       \<and> \<not> success (fst (auth_or_register others now p s))
       \<and> isNewUser (fst (auth_or_register others now p s)) = None
       \<and> users (snd (auth_or_register others now p s)) = users_at_create others p (users s)
       \<and> last (accesses (snd (auth_or_register others now p s))) = CreateDocument USERS"
proof -
  have nk: "filter (\<lambda>u. u_appPublicKey u = appPublicKey p) (users s) = []"
    using assms(2) by (simp add: filter_empty_conv)
  have dup: "list_ex (\<lambda>u. u_appPublicKey u = u_appPublicKey (newUserDoc p))
               (users_at_create others p (users s))"
    using assms(4) by (simp add: list_ex_iff newUserDoc_def)
  have cr: "users s' = users_at_create others p (users s) \<Longrightarrow>
        create_user (newUserDoc p) s' = (Inl DuplicateKey, called (CreateDocument USERS) s')" for s'
    using dup by (simp add: create_user_def Let_def)
  show ?thesis
  proof (cases "truthy_str (username p)")
    case True
    then have nu: "filter (\<lambda>u. u_username u = username p) (others 1 (users s)) = []"
      using assms(3) by (simp add: filter_empty_conv)
    let ?s2 = "meanwhile (others 2) (called (ListDocuments USERS)
                 (meanwhile (others 1) (called (ListDocuments USERS) s)))"
    have "users ?s2 = users_at_create others p (users s)"
      using True by (simp add: users_at_create_def meanwhile_def)
    from cr[OF this] show ?thesis
      using assms(1) nk nu True
      by (simp add: auth_or_register_def verified_def list_users_def rejection_def
            meanwhile_def called_def users_at_create_def)
  next
    case False
    let ?s1 = "meanwhile (others 1) (called (ListDocuments USERS) s)"
    have "users ?s1 = users_at_create others p (users s)"
      using False by (simp add: users_at_create_def meanwhile_def)
    from cr[OF this] show ?thesis
      using assms(1) nk False
      by (simp add: auth_or_register_def verified_def list_users_def rejection_def
            meanwhile_def called_def users_at_create_def)
  qed
qed

theorem duplicate_key_answered_with_500_witness:
  "status (fst (auth_or_register racing 1700000000001 request_pk1 empty_directory)) = 500
   \<and> code (fst (auth_or_register racing 1700000000001 request_pk1 empty_directory)) = Some ''AUTH_ERROR''
   \<and> users (snd (auth_or_register racing 1700000000001 request_pk1 empty_directory))
       = [stored request_pk1 []]"
  using duplicate_key_answered_with_500
          [where p = request_pk1 and now = 1700000000001 and s = empty_directory and others = racing]
  by (simp add: example_defs racing_def users_at_create_def)

text \<open>
  Claim C3 as stated fails: with \<^verbatim>\<open>pk1\<close> registered by a concurrent request between the
  username lookup and the create, the create is refused with a duplicate key and the
  answer is status 500, not a successful authentication with \<^verbatim>\<open>isNewUser = false\<close>.
\<close>

theorem duplicate_key_not_retried_counterexample:
  "fst (create_user (newUserDoc request_pk1)
          \<lparr>users = [stored request_pk1 []], role_docs = [], accesses = []\<rparr>) = Inl DuplicateKey
   \<and> status (fst (auth_or_register racing 1700000000001 request_pk1 empty_directory)) = 500
   \<and> \<not> success (fst (auth_or_register racing 1700000000001 request_pk1 empty_directory))
   \<and> isNewUser (fst (auth_or_register racing 1700000000001 request_pk1 empty_directory)) \<noteq> Some False
   \<and> accesses (snd (auth_or_register racing 1700000000001 request_pk1 empty_directory))
       = [ListDocuments USERS, ListDocuments USERS, CreateDocument USERS]"
  by (simp add: auth_or_register_def create_user_def list_users_def called_def meanwhile_def
        racing_def rejection_def Let_def example_defs)

section \<open>The last-login timestamp\<close>

lemma lastLogin_apply_updates [simp]: "u_lastLogin (apply_updates upd u) = u_lastLogin u"
  by (simp add: apply_updates_def)

lemma map_lastLogin_updated:
  "map u_lastLogin (map (\<lambda>v. if u_id v = i then apply_updates upd v else v) xs) = map u_lastLogin xs"
  by (induction xs) simp_all

lemma filter_bsv_touched:
  assumes "filter (\<lambda>u. u_bsvAddress u = a) xs = usr # rest"
  shows "filter (\<lambda>u. u_bsvAddress u = a)
           (map (\<lambda>v. if u_id v = u_id usr then v\<lparr>u_lastLogin := Some now\<rparr> else v) xs)
         = usr\<lparr>u_lastLogin := Some now\<rparr>
           # map (\<lambda>v. if u_id v = u_id usr then v\<lparr>u_lastLogin := Some now\<rparr> else v) rest"
proof -
  let ?g = "\<lambda>v. if u_id v = u_id usr then v\<lparr>u_lastLogin := Some now\<rparr> else v"
  have "filter (\<lambda>u. u_bsvAddress u = a) (map ?g xs) = map ?g (filter (\<lambda>u. u_bsvAddress u = a) xs)"
    by (induction xs) auto
  then show ?thesis using assms by simp
qed

lemma authenticate_success:
  assumes "success (fst (authenticate now p s))"
  shows "\<exists>usr rest. filter (\<lambda>u. u_bsvAddress u = bsvAddress p) (users s) = usr # rest
          \<and> u_appPublicKey usr = appPublicKey p
          \<and> users (snd (authenticate now p s))
              = map (\<lambda>v. if u_id v = u_id usr then v\<lparr>u_lastLogin := Some now\<rparr> else v) (users s)
          \<and> accesses (snd (authenticate now p s))
              = accesses s @ [ListDocuments USERS, UpdateDocument USERS]
          \<and> status (fst (authenticate now p s)) = 200
          \<and> isNewUser (fst (authenticate now p s)) = Some False"
  using assms
  by (auto simp add: authenticate_def list_users_def update_user_def Let_def rejection_def
        accepted_def called_def split: if_splits list.splits option.splits)

text \<open>The Found path of auth-or-register, in full.\<close>

lemma keys_length_pos:
  "keys_length (collect_updates p u) > 0 \<longleftrightarrow>
     (truthy_str (username p) \<and> username p \<noteq> u_username u)
     \<or> (truthy_str (displayName p) \<and> displayName p \<noteq> u_displayName u)
     \<or> (truthy_str (avatar p) \<and> avatar p \<noteq> u_avatar u)"
  by (auto simp: keys_length_def collect_updates_def differs_def truthy_str_def)

lemma apply_collected:
  "apply_updates (collect_updates p u) v =
     v\<lparr>u_username := (if truthy_str (username p) \<and> username p \<noteq> u_username u
                       then username p else u_username v),
       u_displayName := (if truthy_str (displayName p) \<and> displayName p \<noteq> u_displayName u
                          then displayName p else u_displayName v),
       u_avatar := (if truthy_str (avatar p) \<and> avatar p \<noteq> u_avatar u
                     then avatar p else u_avatar v)\<rparr>"
  by (auto simp: apply_updates_def collect_updates_def differs_def truthy_str_def
           split: option.splits)

lemma aor_found_accesses:
  assumes "verified now p" "filter (\<lambda>u. u_appPublicKey u = appPublicKey p) (users s) = u # rest"
  shows "accesses (snd (auth_or_register alone now p s)) =
           accesses s @ (if keys_length (collect_updates p u) > 0
                         then [ListDocuments USERS, UpdateDocument USERS]
                         else [ListDocuments USERS])"
proof -
  have "u \<in> set (users s)" using assms(2) filter_hd_mem by fastforce
  then obtain w where w: "find (\<lambda>v. u_id v = u_id u) (users s) = Some w"
    using find_id_some by blast
  show ?thesis
    using assms w
    by (simp add: auth_or_register_def verified_def list_users_def update_user_def Let_def called_def)
qed

lemma aor_old_user_found:
  assumes "isNewUser (fst (auth_or_register alone now p s)) = Some False"
  shows "verified now p
       \<and> (\<exists>usr rest. filter (\<lambda>u. u_appPublicKey u = appPublicKey p) (users s) = usr # rest)"
proof -
  have v: "verified now p"
  proof (rule ccontr)
    assume "\<not> verified now p"
    then have "isNewUser (fst (auth_or_register alone now p s)) = None"
      by (auto simp: verified_def auth_or_register_def rejection_def)
    with assms show False by simp
  qed
  have "filter (\<lambda>u. u_appPublicKey u = appPublicKey p) (users s) \<noteq> []"
  proof
    assume nk: "filter (\<lambda>u. u_appPublicKey u = appPublicKey p) (users s) = []"
    show False
    proof (cases "truthy_str (username p) \<and> filter (\<lambda>u. u_username u = username p) (users s) \<noteq> []")
      case True
      then show False using aor_taken[OF v nk] assms by (simp add: rejection_def)
    next
      case False
      then show False using aor_create[OF v nk] assms by (auto simp: accepted_def)
    qed
  qed
  with v show ?thesis by (cases "filter (\<lambda>u. u_appPublicKey u = appPublicKey p) (users s)") auto
qed

text \<open>
  Claim C8, as the code has it. Every successful answer of the dedicated authenticate
  handler comes behind one lookup and one \<^verbatim>\<open>updateDocument\<close> call that sets \<^verbatim>\<open>lastLogin\<close>
  of the authenticated record to the current time and changes nothing else. The Found
  path of auth-or-register (the answers with \<^verbatim>\<open>isNewUser = false\<close>) leaves the
  \<^verbatim>\<open>lastLogin\<close> of every record as it was. What it writes to the record it found is
  \<^verbatim>\<open>username\<close>, \<^verbatim>\<open>displayName\<close> and \<^verbatim>\<open>avatar\<close>, each only when the payload supplies it
  and it differs from the stored value; it calls \<^verbatim>\<open>updateDocument\<close> once when one of them
  does, and when none does it makes its lookup and no write, and the users collection is
  unchanged.
\<close>

theorem last_login_written_by_authenticate_only:
  "(success (fst (authenticate now p s)) \<longrightarrow>
      status (fst (authenticate now p s)) = 200
      \<and> isNewUser (fst (authenticate now p s)) = Some False
      \<and> (\<exists>usr rest. filter (\<lambda>u. u_bsvAddress u = bsvAddress p) (users s) = usr # rest
            \<and> users (snd (authenticate now p s))
                = map (\<lambda>v. if u_id v = u_id usr then v\<lparr>u_lastLogin := Some now\<rparr> else v) (users s))
      \<and> accesses (snd (authenticate now p s))
          = accesses s @ [ListDocuments USERS, UpdateDocument USERS]
      \<and> UpdateDocument USERS \<in> set (accesses (snd (authenticate now p s)))
      \<and> (\<exists>usr rest. filter (\<lambda>u. u_bsvAddress u = bsvAddress p) (users (snd (authenticate now p s)))
                        = usr # rest
                      \<and> u_lastLogin usr = Some now))
   \<and> (isNewUser (fst (auth_or_register alone now p s)) = Some False \<longrightarrow>
        (\<exists>usr rest.
          filter (\<lambda>u. u_appPublicKey u = appPublicKey p) (users s) = usr # rest
          \<and> users (snd (auth_or_register alone now p s))
              = map (\<lambda>v. if u_id v = u_id usr
                         then v\<lparr>u_username :=
                                  (if truthy_str (username p) \<and> username p \<noteq> u_username usr
                                   then username p else u_username v),
                                u_displayName :=
                                  (if truthy_str (displayName p) \<and> displayName p \<noteq> u_displayName usr
                                   then displayName p else u_displayName v),
                                u_avatar :=
                                  (if truthy_str (avatar p) \<and> avatar p \<noteq> u_avatar usr
                                   then avatar p else u_avatar v)\<rparr>
                         else v) (users s)
          \<and> accesses (snd (auth_or_register alone now p s))
              = accesses s @ (if (truthy_str (username p) \<and> username p \<noteq> u_username usr)
                    \<or> (truthy_str (displayName p) \<and> displayName p \<noteq> u_displayName usr)
                    \<or> (truthy_str (avatar p) \<and> avatar p \<noteq> u_avatar usr)
                              then [ListDocuments USERS, UpdateDocument USERS]
                              else [ListDocuments USERS])
          \<and> (\<not> ((truthy_str (username p) \<and> username p \<noteq> u_username usr)
                    \<or> (truthy_str (displayName p) \<and> displayName p \<noteq> u_displayName usr)
                    \<or> (truthy_str (avatar p) \<and> avatar p \<noteq> u_avatar usr))
               \<longrightarrow> users (snd (auth_or_register alone now p s)) = users s))
        \<and> map u_lastLogin (users (snd (auth_or_register alone now p s))) = map u_lastLogin (users s))"
proof -
  have A: "status (fst (authenticate now p s)) = 200
      \<and> isNewUser (fst (authenticate now p s)) = Some False
      \<and> (\<exists>usr rest. filter (\<lambda>u. u_bsvAddress u = bsvAddress p) (users s) = usr # rest
            \<and> users (snd (authenticate now p s))
                = map (\<lambda>v. if u_id v = u_id usr then v\<lparr>u_lastLogin := Some now\<rparr> else v) (users s))
      \<and> accesses (snd (authenticate now p s))
          = accesses s @ [ListDocuments USERS, UpdateDocument USERS]
      \<and> UpdateDocument USERS \<in> set (accesses (snd (authenticate now p s)))
      \<and> (\<exists>usr rest. filter (\<lambda>u. u_bsvAddress u = bsvAddress p) (users (snd (authenticate now p s)))
                        = usr # rest
                      \<and> u_lastLogin usr = Some now)"
    if ok: "success (fst (authenticate now p s))"
  proof -
    obtain usr rest where f: "filter (\<lambda>u. u_bsvAddress u = bsvAddress p) (users s) = usr # rest"
      and u: "users (snd (authenticate now p s))
              = map (\<lambda>v. if u_id v = u_id usr then v\<lparr>u_lastLogin := Some now\<rparr> else v) (users s)"
      and a: "accesses (snd (authenticate now p s))
              = accesses s @ [ListDocuments USERS, UpdateDocument USERS]"
      and r: "status (fst (authenticate now p s)) = 200"
        "isNewUser (fst (authenticate now p s)) = Some False"
      using authenticate_success[OF ok] by blast
    have "filter (\<lambda>u. u_bsvAddress u = bsvAddress p) (users (snd (authenticate now p s)))
         = usr\<lparr>u_lastLogin := Some now\<rparr>
           # map (\<lambda>v. if u_id v = u_id usr then v\<lparr>u_lastLogin := Some now\<rparr> else v) rest"
      unfolding u by (rule filter_bsv_touched[OF f])
    then have "\<exists>usr rest. filter (\<lambda>u. u_bsvAddress u = bsvAddress p)
                  (users (snd (authenticate now p s))) = usr # rest
                \<and> u_lastLogin usr = Some now"
      by simp
    moreover have "UpdateDocument USERS \<in> set (accesses (snd (authenticate now p s)))"
      using a by simp
    ultimately show ?thesis using f u a r by blast
  qed
  have B: "(\<exists>usr rest.
          filter (\<lambda>u. u_appPublicKey u = appPublicKey p) (users s) = usr # rest
          \<and> users (snd (auth_or_register alone now p s))
              = map (\<lambda>v. if u_id v = u_id usr
                         then v\<lparr>u_username :=
                                  (if truthy_str (username p) \<and> username p \<noteq> u_username usr
                                   then username p else u_username v),
                                u_displayName :=
                                  (if truthy_str (displayName p) \<and> displayName p \<noteq> u_displayName usr
                                   then displayName p else u_displayName v),
                                u_avatar :=
                                  (if truthy_str (avatar p) \<and> avatar p \<noteq> u_avatar usr
                                   then avatar p else u_avatar v)\<rparr>
                         else v) (users s)
          \<and> accesses (snd (auth_or_register alone now p s))
              = accesses s @ (if (truthy_str (username p) \<and> username p \<noteq> u_username usr)
                    \<or> (truthy_str (displayName p) \<and> displayName p \<noteq> u_displayName usr)
                    \<or> (truthy_str (avatar p) \<and> avatar p \<noteq> u_avatar usr)
                              then [ListDocuments USERS, UpdateDocument USERS]
                              else [ListDocuments USERS])
          \<and> (\<not> ((truthy_str (username p) \<and> username p \<noteq> u_username usr)
                    \<or> (truthy_str (displayName p) \<and> displayName p \<noteq> u_displayName usr)
                    \<or> (truthy_str (avatar p) \<and> avatar p \<noteq> u_avatar usr))
               \<longrightarrow> users (snd (auth_or_register alone now p s)) = users s))
        \<and> map u_lastLogin (users (snd (auth_or_register alone now p s))) = map u_lastLogin (users s)"
    if old: "isNewUser (fst (auth_or_register alone now p s)) = Some False"
  proof -
    obtain usr rest where v: "verified now p"
      and f: "filter (\<lambda>u. u_appPublicKey u = appPublicKey p) (users s) = usr # rest"
      using aor_old_user_found[OF old] by blast
    let ?D = "(truthy_str (username p) \<and> username p \<noteq> u_username usr)
                    \<or> (truthy_str (displayName p) \<and> displayName p \<noteq> u_displayName usr)
                    \<or> (truthy_str (avatar p) \<and> avatar p \<noteq> u_avatar usr)"
    have k: "keys_length (collect_updates p usr) > 0 \<longleftrightarrow> ?D"
      by (rule keys_length_pos)
    have us: "users (snd (auth_or_register alone now p s)) =
          (if ?D
           then map (\<lambda>v. if u_id v = u_id usr then apply_updates (collect_updates p usr) v else v) (users s)
           else users s)"
      using aor_found(2)[OF v f] k by simp
    have ac: "accesses (snd (auth_or_register alone now p s))
              = accesses s @ (if ?D
                              then [ListDocuments USERS, UpdateDocument USERS]
                              else [ListDocuments USERS])"
      using aor_found_accesses[OF v f] k by simp
    have same: "\<not> ?D \<Longrightarrow>
        map (\<lambda>v. if u_id v = u_id usr then apply_updates (collect_updates p usr) v else v) xs = xs" for xs
      by (induction xs) (auto simp: apply_collected)
    have full: "users (snd (auth_or_register alone now p s))
          = map (\<lambda>v. if u_id v = u_id usr then apply_updates (collect_updates p usr) v else v) (users s)"
      using us same[of "users s"] by (cases ?D) simp_all
    have ll: "map u_lastLogin (users (snd (auth_or_register alone now p s))) = map u_lastLogin (users s)"
      unfolding full by (rule map_lastLogin_updated)
    have unchanged: "\<not> ?D \<longrightarrow> users (snd (auth_or_register alone now p s)) = users s"
      using us by simp
    from f full[unfolded apply_collected] ac unchanged ll show ?thesis by blast
  qed
  from A B show ?thesis by blast
qed

theorem last_login_written_by_authenticate_only_witness:
  "success (fst (authenticate 1700000200000 request_pk1 register_js_directory))
   \<and> UpdateDocument USERS
        \<in> set (accesses (snd (authenticate 1700000200000 request_pk1 register_js_directory)))
   \<and> isNewUser (fst (auth_or_register alone 1700000200000 request_pk1 register_js_directory)) = Some False
   \<and> map u_lastLogin (users (snd (auth_or_register alone 1700000200000 request_pk1 register_js_directory)))
       = map u_lastLogin (users register_js_directory)"
proof -
  have a: "success (fst (authenticate 1700000200000 request_pk1 register_js_directory))"
    by (simp add: run_defs example_defs)
  have b: "isNewUser (fst (auth_or_register alone 1700000200000 request_pk1 register_js_directory))
            = Some False"
    by (simp add: run_defs example_defs)
  from a b last_login_written_by_authenticate_only
             [where p = request_pk1 and now = 1700000200000 and s = register_js_directory]
  show ?thesis by blast
qed

text \<open>
  Claim C8 as stated fails for auth-or-register: a user registered at 1700000000000
  authenticates 200 seconds later, the answer is a success with \<^verbatim>\<open>isNewUser = false\<close>,
  and the stored \<^verbatim>\<open>lastLogin\<close> is still the registration time; the handler made one
  lookup and no write.
\<close>

theorem auth_or_register_leaves_last_login_counterexample:
  "success (fst (auth_or_register alone 1700000200000 request_pk1 register_js_directory))
   \<and> isNewUser (fst (auth_or_register alone 1700000200000 request_pk1 register_js_directory)) = Some False
   \<and> map u_lastLogin (users register_js_directory) = [Some 1700000000000]
   \<and> map u_lastLogin (users (snd (auth_or_register alone 1700000200000 request_pk1 register_js_directory)))
       = [Some 1700000000000]
   \<and> accesses (snd (auth_or_register alone 1700000200000 request_pk1 register_js_directory))
       = accesses register_js_directory @ [ListDocuments USERS]"
  by (simp add: run_defs example_defs)

section \<open>Role and status of a created record\<close>

lemma new_user_doc_fields [simp]:
  "u_appPublicKey (new_user_doc d now p) = appPublicKey p"
  "u_status (new_user_doc d now p) = None"
  "u_role (new_user_doc d now p) = Some (or_else d ''user'')"
  "u_isActive (new_user_doc d now p) = Some True"
  by (simp_all add: new_user_doc_def)

lemma newUserDoc_fields [simp]:
  "u_appPublicKey (newUserDoc p) = appPublicKey p"
  "u_status (newUserDoc p) = None"
  "u_roles (newUserDoc p) = None"
  "u_role (newUserDoc p) = None"
  "u_isActive (newUserDoc p) = None"
  by (simp_all add: newUserDoc_def)

lemma register_created:
  assumes "isNewUser (fst (register d now p s)) = Some True"
  shows "r_user (fst (register d now p s))
           = Some ((new_user_doc d now p)\<lparr>u_id := unique_id (users s), u_status := Some ''active''\<rparr>)
       \<and> users (snd (register d now p s))
           = users s @ [(new_user_doc d now p)\<lparr>u_id := unique_id (users s), u_status := Some ''active''\<rparr>]"
  using assms
  by (simp add: register_def list_users_def create_user_def create_role_doc_def Let_def
        rejection_def accepted_def split: if_splits)

lemma aor_created:
  assumes "isNewUser (fst (auth_or_register others now p s)) = Some True"
  shows "r_user (fst (auth_or_register others now p s))
           = Some (stored p (users_at_create others p (users s)))
       \<and> users (snd (auth_or_register others now p s))
           = users_at_create others p (users s) @ [stored p (users_at_create others p (users s))]"
  using assms
  by (simp add: auth_or_register_def list_users_def create_user_def update_user_def Let_def
        rejection_def accepted_def meanwhile_def users_at_create_def stored_def
        split: if_splits list.splits option.splits)

text \<open>
  Claim C9, as the code has it. A record created by the register handler is stored with
  the baseline role, which is \<^verbatim>\<open>VITE_DEFAULT_ROLE\<close>, or \<^verbatim>\<open>'user'\<close> when that is unset or
  empty, and so is never empty, and with \<^verbatim>\<open>isActive = true\<close>. A record created by
  auth-or-register is the handler's \<^verbatim>\<open>newUserDoc\<close> with an id and \<^verbatim>\<open>status = 'active'\<close>:
  its status is active, but it has no \<^verbatim>\<open>role\<close> and no \<^verbatim>\<open>roles\<close>, so its role set is
  empty.
\<close>

theorem created_records_role_and_status:
  "(isNewUser (fst (register d now p s)) = Some True \<longrightarrow>
      (\<exists>u r. r_user (fst (register d now p s)) = Some u
            \<and> users (snd (register d now p s)) = users s @ [u]
            \<and> u_role u = Some r \<and> r \<noteq> []
            \<and> r = or_else d ''user''
            \<and> (truthy_str d \<longrightarrow> Some r = d) \<and> (\<not> truthy_str d \<longrightarrow> r = ''user'')
            \<and> u_isActive u = Some True))
   \<and> (isNewUser (fst (auth_or_register others now p s)) = Some True \<longrightarrow>
      (\<exists>u. r_user (fst (auth_or_register others now p s)) = Some u
            \<and> users (snd (auth_or_register others now p s))
                = users_at_create others p (users s) @ [u]
            \<and> u = (newUserDoc p)\<lparr>u_id := unique_id (users_at_create others p (users s)),
                                  u_status := Some ''active''\<rparr>
            \<and> last (users (snd (auth_or_register others now p s))) = u
            \<and> u \<in> set (users (snd (auth_or_register others now p s)))
            \<and> u_role u = None \<and> u_roles u = None \<and> parse_roles (u_roles u) = []
            \<and> u_isActive u = None
            \<and> u_status u = Some ''active''))"
proof -
  have A: "\<exists>u r. r_user (fst (register d now p s)) = Some u
            \<and> users (snd (register d now p s)) = users s @ [u]
            \<and> u_role u = Some r \<and> r \<noteq> []
            \<and> r = or_else d ''user''
            \<and> (truthy_str d \<longrightarrow> Some r = d) \<and> (\<not> truthy_str d \<longrightarrow> r = ''user'')
            \<and> u_isActive u = Some True"
    if new: "isNewUser (fst (register d now p s)) = Some True"
  proof -
    let ?u = "(new_user_doc d now p)\<lparr>u_id := unique_id (users s), u_status := Some ''active''\<rparr>"
    have "r_user (fst (register d now p s)) = Some ?u"
      and "users (snd (register d now p s)) = users s @ [?u]"
      using register_created[OF new] by simp_all
    moreover have "u_role ?u = Some (or_else d ''user'')" and "u_isActive ?u = Some True"
      by simp_all
    moreover have "or_else d ''user'' \<noteq> []"
      and "truthy_str d \<longrightarrow> Some (or_else d ''user'') = d"
      and "\<not> truthy_str d \<longrightarrow> or_else d ''user'' = ''user''"
      by (auto simp: or_else_def truthy_str_def split: option.splits)
    ultimately show ?thesis by blast
  qed
  have B: "\<exists>u. r_user (fst (auth_or_register others now p s)) = Some u
            \<and> users (snd (auth_or_register others now p s))
                = users_at_create others p (users s) @ [u]
            \<and> u = (newUserDoc p)\<lparr>u_id := unique_id (users_at_create others p (users s)),
                                  u_status := Some ''active''\<rparr>
            \<and> last (users (snd (auth_or_register others now p s))) = u
            \<and> u \<in> set (users (snd (auth_or_register others now p s)))
            \<and> u_role u = None \<and> u_roles u = None \<and> parse_roles (u_roles u) = []
            \<and> u_isActive u = None
            \<and> u_status u = Some ''active''"
    if new: "isNewUser (fst (auth_or_register others now p s)) = Some True"
    using aor_created[OF new] by (simp add: stored_def parse_roles_def)
  from A B show ?thesis by blast
qed

theorem created_records_role_and_status_witness:
  "isNewUser (fst (register None 1700000000001 request_pk1 empty_directory)) = Some True
   \<and> (\<exists>u r. r_user (fst (register None 1700000000001 request_pk1 empty_directory)) = Some u
            \<and> users (snd (register None 1700000000001 request_pk1 empty_directory))
                = users empty_directory @ [u]
            \<and> u_role u = Some r \<and> r \<noteq> [] \<and> r = ''user'' \<and> u_isActive u = Some True)
   \<and> isNewUser (fst (auth_or_register alone 1700000000001 request_pk1 empty_directory)) = Some True
   \<and> (\<exists>u. r_user (fst (auth_or_register alone 1700000000001 request_pk1 empty_directory)) = Some u
            \<and> u_role u = None \<and> parse_roles (u_roles u) = [] \<and> u_status u = Some ''active'')"
proof -
  have a: "isNewUser (fst (register None 1700000000001 request_pk1 empty_directory)) = Some True"
    by (simp add: run_defs example_defs)
  have b: "isNewUser (fst (auth_or_register alone 1700000000001 request_pk1 empty_directory)) = Some True"
    by (simp add: run_defs example_defs)
  have c: "\<not> truthy_str None"
    by (simp add: truthy_str_def)
  from a b c created_records_role_and_status
             [where p = request_pk1 and now = 1700000000001 and s = empty_directory
                and d = None and others = alone]
  show ?thesis by blast
qed

text \<open>
  Claim C9 as stated fails for auth-or-register: the record it creates for \<^verbatim>\<open>pk1\<close> in an
  empty directory has no role and an empty role set.
\<close>

theorem auth_or_register_creates_without_role_counterexample:
  "isNewUser (fst (auth_or_register alone 1700000000001 request_pk1 empty_directory)) = Some True
   \<and> map u_roles (users (snd (auth_or_register alone 1700000000001 request_pk1 empty_directory))) = [None]
   \<and> map u_role (users (snd (auth_or_register alone 1700000000001 request_pk1 empty_directory))) = [None]
   \<and> map (\<lambda>u. parse_roles (u_roles u))
        (users (snd (auth_or_register alone 1700000000001 request_pk1 empty_directory))) = [[]]"
  by (simp add: run_defs example_defs parse_roles_def)

section \<open>Signature verification\<close>

lemma register_ignores_signature:
  "sg \<noteq> [] \<Longrightarrow> sg' \<noteq> [] \<Longrightarrow>
   register d now (p\<lparr>signature := Some sg\<rparr>) s = register d now (p\<lparr>signature := Some sg'\<rparr>) s"
  by (simp add: register_def truthy_str_def new_user_doc_def default_role_doc_def list_users_def Let_def
        split: prod.splits sum.splits)

lemma grant_user_role_ignores_signature:
  "sg \<noteq> [] \<Longrightarrow> sg' \<noteq> [] \<Longrightarrow>
   grant_user_role now (p\<lparr>signature := Some sg\<rparr>) s = grant_user_role now (p\<lparr>signature := Some sg'\<rparr>) s"
  by (simp add: grant_user_role_def truthy_str_def list_users_def Let_def
        del: page_cons_iff split: prod.splits sum.splits list.splits)

text \<open>
  Claim C1 fails on the code: the signature is never verified. The register handler and
  the self-service grant handler only test that the signature is a non-empty string;
  whatever that string is, the answer and the directory they leave are the same, so an
  envelope whose signature does not verify is answered exactly as one whose signature
  does, and no rejection for an invalid signature comes before the directory is read
  and written.
\<close>

theorem signature_is_not_verified:
  assumes "sg \<noteq> []" and "sg' \<noteq> []"
  shows "register d now (p\<lparr>signature := Some sg\<rparr>) s
           = register d now (p\<lparr>signature := Some sg'\<rparr>) s
       \<and> grant_user_role now (p\<lparr>signature := Some sg\<rparr>) s
           = grant_user_role now (p\<lparr>signature := Some sg'\<rparr>) s"
  using assms register_ignores_signature grant_user_role_ignores_signature by blast

text \<open>
  At a concrete input: an envelope whose signature is the text \<^verbatim>\<open>not-a-signature\<close> is
  registered with status 201 after two lookups and two creates, and the same envelope
  sent to the self-service grant handler makes its sender admin.
\<close>

theorem signature_is_not_verified_witness:
  "status (fst (register None 1700000000001 (request_pk1\<lparr>signature := Some ''not-a-signature''\<rparr>)
                  empty_directory)) = 201
   \<and> success (fst (register None 1700000000001 (request_pk1\<lparr>signature := Some ''not-a-signature''\<rparr>)
                  empty_directory))
   \<and> code (fst (register None 1700000000001 (request_pk1\<lparr>signature := Some ''not-a-signature''\<rparr>)
                  empty_directory)) \<noteq> Some ''INVALID_SIGNATURE''
   \<and> accesses (snd (register None 1700000000001 (request_pk1\<lparr>signature := Some ''not-a-signature''\<rparr>)
                  empty_directory))
       = [ListDocuments USERS, ListDocuments USERS, CreateDocument USERS, CreateDocument ROLES]
   \<and> status (fst (grant_user_role 1700000000001 (request_pk1\<lparr>signature := Some ''not-a-signature''\<rparr>)
                  bob_pk1_directory)) = 200
   \<and> map u_roles (users (snd (grant_user_role 1700000000001
                  (request_pk1\<lparr>signature := Some ''not-a-signature''\<rparr>) bob_pk1_directory)))
       = [Some [''admin'']]
   \<and> accesses (snd (grant_user_role 1700000000001 (request_pk1\<lparr>signature := Some ''not-a-signature''\<rparr>)
                  bob_pk1_directory))
       = [ListDocuments USERS, ListDocuments USERS, UpdateDocument USERS]"
proof -
  have a: "register None 1700000000001 (request_pk1\<lparr>signature := Some ''not-a-signature''\<rparr>)
             empty_directory
           = register None 1700000000001 (request_pk1\<lparr>signature := Some ''00''\<rparr>) empty_directory"
    and b: "grant_user_role 1700000000001 (request_pk1\<lparr>signature := Some ''not-a-signature''\<rparr>)
             bob_pk1_directory
           = grant_user_role 1700000000001 (request_pk1\<lparr>signature := Some ''00''\<rparr>) bob_pk1_directory"
    using signature_is_not_verified
            [where sg = "''not-a-signature''" and sg' = "''00''" and p = request_pk1
               and now = 1700000000001 and s = empty_directory and d = None]
          signature_is_not_verified
            [where sg = "''not-a-signature''" and sg' = "''00''" and p = request_pk1
               and now = 1700000000001 and s = bob_pk1_directory and d = None]
    by simp_all
  show ?thesis
    unfolding a b
    by (simp add: run_defs example_defs validRoles_def array_includes_def push_def parse_roles_def
          holds_admin_def)
qed

end
